theory Spec2Isabelle
  imports Main
begin

section \<open>Python strings\<close>

text \<open>
  A Python \<open>str\<close> is modelled as a \<open>string\<close>, one \<open>char\<close> per code point, so
  \<open>length\<close> is Python's \<open>len\<close>.  A \<open>char\<close> has 256 values: the model covers the
  strings whose code points lie below 256.  On that range \<open>str.isnumeric\<close> holds of the
  ten decimal digits, the superscripts one, two and three and the three vulgar
  fractions, and \<open>str.isspace\<close> of the twelve code points listed below.
\<close>

definition isnumeric_char :: "char \<Rightarrow> bool" where
  "isnumeric_char c =
     (let n = (of_char c :: nat)
      in (48 \<le> n \<and> n \<le> 57) \<or> n = 178 \<or> n = 179 \<or> n = 185 \<or> n = 188 \<or> n = 189 \<or> n = 190)"

definition isnumeric :: "string \<Rightarrow> bool" where
  "isnumeric s = (s \<noteq> [] \<and> list_all isnumeric_char s)"

definition isspace_char :: "char \<Rightarrow> bool" where
  "isspace_char c =
     (let n = (of_char c :: nat)
      in (9 \<le> n \<and> n \<le> 13) \<or> (28 \<le> n \<and> n \<le> 32) \<or> n = 133 \<or> n = 160)"

definition strip :: "string \<Rightarrow> string" where
  "strip s = rev (dropWhile isspace_char (rev (dropWhile isspace_char s)))"

fun starts_with :: "string \<Rightarrow> string \<Rightarrow> bool" where
  "starts_with [] hay = True"
| "starts_with (c # cs) [] = False"
| "starts_with (c # cs) (d # ds) = (c = d \<and> starts_with cs ds)"

text \<open>\<open>str_in sub hay\<close> is Python's \<open>sub in hay\<close> on strings.\<close>

fun str_in :: "string \<Rightarrow> string \<Rightarrow> bool" where
  "str_in sub [] = (sub = [])"
| "str_in sub (d # ds) = (starts_with sub (d # ds) \<or> str_in sub ds)"

text \<open>\<open>join sep xs\<close> is Python's \<open>sep.join(xs)\<close>.\<close>

fun join :: "string \<Rightarrow> string list \<Rightarrow> string" where
  "join sep [] = []"
| "join sep [x] = x"
| "join sep (x # y # zs) = x @ sep @ join sep (y # zs)"

definition crlf :: string where
  "crlf = [CHR 0x0D, CHR 0x0A]"

definition quoted :: "string \<Rightarrow> string" where
  "quoted s = [CHR 0x27] @ s @ [CHR 0x27]"


section \<open>Exceptions, the SAP GUI session and the engine's state\<close>

text \<open>
  The exceptions that \<open>fbl3n.py\<close> raises, each with its message.  \<open>ComError\<close> stands
  for whatever a failing call into SAP GUI scripting or the clipboard raises.
\<close>

datatype error =
    ValueError string
  | KeyError string
  | ItemLoadingError string
  | NoItemsFoundWarning string
  | NoItemsFoundError string
  | UninitializedModuleError string
  | SapConnectionLostError string
  | ComError

text \<open>
  Every call that leaves the process is an event: a virtual key sent to the main window,
  a field written, a control counted, pressed or selected, the status bar read, a grid
  property read or set, a text put on the clipboard.
\<close>

datatype event =
    SendVKey nat
  | SetText string string string
  | CountByName string string
  | PressButton string string string
  | SelectRadio string string
  | ReadStatusBar
  | FindById string
  | GetFilterList
  | FilterRowCount
  | FilterGetCellValue nat string
  | FilterSelectedRows nat
  | GridRowCount
  | GridSelectedRows nat
  | GridCurrentCellRow nat
  | GridGetCellValue nat string
  | CopyToClipboard string

text \<open>
  What SAP answers is not in the source; it is a parameter of the model.
  \<open>com_fails n\<close> tells whether the call made after \<open>n\<close> successful calls raises,
  \<open>field_count n name\<close> how many controls of that name the screen holds at that
  moment, \<open>status_text\<close> the status bar after the load, \<open>filter_fields\<close> the
  \<open>FIELDNAME\<close> column of the list of unused filters, and \<open>grid\<close> the rows
  \<open>(SGTXT, ZUONR)\<close> of the item table as it stands once the filter is applied.
\<close>

record env =
  com_fails :: "nat \<Rightarrow> bool"
  field_count :: "nat \<Rightarrow> string \<Rightarrow> nat"
  status_text :: string
  filter_fields :: "string list"
  grid :: "(string \<times> string) list"

text \<open>
  The module's own state: whether \<open>_sess\<close> is bound, the calls made so far, in order,
  and the content of the clipboard.
\<close>

record session =
  sess_bound :: bool
  trace :: "event list"
  clipboard :: string

text \<open>
  A procedure takes the state and returns an exception or a value, with the state it
  leaves behind: what was done before an exception stays done.
\<close>

type_synonym 'a engine = "session \<Rightarrow> (error + 'a) \<times> session"

definition ret :: "'a \<Rightarrow> 'a engine" where
  "ret x s = (Inr x, s)"

definition raise :: "error \<Rightarrow> 'a engine" where
  "raise e s = (Inl e, s)"

definition bind :: "'a engine \<Rightarrow> ('a \<Rightarrow> 'b engine) \<Rightarrow> 'b engine" where
  "bind m f s = (case m s of (Inl e, s') \<Rightarrow> (Inl e, s') | (Inr x, s') \<Rightarrow> f x s')"

text \<open>\<open>try: m except Exception as exc: raise e from exc\<close>\<close>

definition reraise :: "'a engine \<Rightarrow> error \<Rightarrow> 'a engine" where
  "reraise m e s = (case m s of (Inl _, s') \<Rightarrow> (Inl e, s') | (Inr x, s') \<Rightarrow> (Inr x, s'))"

definition lift :: "error + 'a \<Rightarrow> 'a engine" where
  "lift r s = (r, s)"

text \<open>One call into SAP: it raises, or it is recorded and answers.\<close>

definition com :: "env \<Rightarrow> event \<Rightarrow> (nat \<Rightarrow> 'a) \<Rightarrow> 'a engine" where
  "com e ev answer s =
     (let n = length (trace s)
      in if com_fails e n then (Inl ComError, s)
         else (Inr (answer n), s\<lparr>trace := trace s @ [ev]\<rparr>))"

definition act :: "env \<Rightarrow> event \<Rightarrow> unit engine" where
  "act e ev = com e ev (\<lambda>_. ())"

text \<open>\<open>pyperclip.copy\<close>: the text replaces the clipboard's content.\<close>

definition copy_to_clipboard :: "env \<Rightarrow> string \<Rightarrow> unit engine" where
  "copy_to_clipboard e txt =
     bind (act e (CopyToClipboard txt)) (\<lambda>_ s. (Inr (), s\<lparr>clipboard := txt\<rparr>))"

definition clear_clipboard :: "env \<Rightarrow> unit engine" where
  "clear_clipboard e = copy_to_clipboard e []"

definition virtual_keys :: "(string \<times> nat) list" where
  "virtual_keys =
     [(''Enter'', 0), (''F2'', 2), (''F3'', 3), (''F4'', 4), (''F6'', 6), (''F8'', 8),
      (''F9'', 9), (''CtrlS'', 11), (''F12'', 12), (''ShiftF1'', 13), (''ShiftF2'', 14),
      (''ShiftF4'', 16), (''ShiftF12'', 24), (''CtrlF1'', 25), (''CtrlF8'', 32),
      (''CtrlShiftF2'', 38), (''CtrlShiftF6'', 42)]"

definition press_key :: "env \<Rightarrow> string \<Rightarrow> unit engine" where
  "press_key e name =
     (case map_of virtual_keys name of
        None \<Rightarrow> raise (KeyError name)
      | Some k \<Rightarrow> act e (SendVKey k))"


section \<open>The field setters of \<open>fbl3n.py\<close>\<close>

definition set_text :: "env \<Rightarrow> string \<Rightarrow> unit engine" where
  "set_text e val =
     (if length val > 50
      then raise (ValueError (''The length of the entered value '' @ quoted val
             @ '' exceeds the allowed maximum of 50 chars for this field!''))
      else act e (SetText ''BSEG-SGTXT'' ''GuiCTextField'' val))"

definition set_assignment :: "env \<Rightarrow> string \<Rightarrow> unit engine" where
  "set_assignment e val =
     bind (com e (CountByName ''BSEG-ZUONR'' ''GuiTextField'')
             (\<lambda>n. field_count e n ''BSEG-ZUONR'')) (\<lambda>count.
       if count = 0 then ret ()
       else if length val > 18
       then raise (ValueError (''The length of the entered value '' @ quoted val
              @ '' exceeds the allowed maximum of 18 chars for this field!''))
       else act e (SetText ''BSEG-ZUONR'' ''GuiTextField'' val))"

definition set_layout :: "env \<Rightarrow> string \<Rightarrow> unit engine" where
  "set_layout e val = act e (SetText ''PA_VARI'' ''GuiCTextField'' val)"

definition set_company_code :: "env \<Rightarrow> string \<Rightarrow> unit engine" where
  "set_company_code e val =
     (if \<not> (val = [] \<or> (length val = 4 \<and> isnumeric val))
      then raise (ValueError (''Company code has incorrect value: '' @ quoted val @ ''!''))
      else
        bind (com e (CountByName ''SD_BUKRS-LOW'' ''GuiCTextField'')
                (\<lambda>n. field_count e n ''SD_BUKRS-LOW'')) (\<lambda>c1.
          if c1 > 0 then act e (SetText ''SD_BUKRS-LOW'' ''GuiCTextField'' val)
          else
            bind (com e (CountByName ''SO_WLBUK-LOW'' ''GuiCTextField'')
                    (\<lambda>n. field_count e n ''SO_WLBUK-LOW'')) (\<lambda>c2.
              if c2 > 0 then act e (SetText ''SO_WLBUK-LOW'' ''GuiCTextField'' val)
              else ret ())))"

text \<open>
  The guards at the head of \<open>controller.modify_accounting_parameters\<close>: the data
  frame must hold records, and the company code four numeric characters.
\<close>

definition modify_accounting_parameters_guards :: "bool \<Rightarrow> string \<Rightarrow> error + unit" where
  "modify_accounting_parameters_guards data_empty cocd =
     (if data_empty then Inl (ValueError ''Argument 'data' has no records!'')
      else if \<not> (length cocd = 4 \<and> isnumeric cocd)
      then Inl (ValueError (''Incorrect company code: '' @ cocd))
      else Inr ())"


section \<open>Selecting accounts and loading the items\<close>

text \<open>
  An account is given by the text \<open>str(val)\<close> that \<open>_set_accounts\<close> tests and joins.
\<close>

fun check_accounts :: "string list \<Rightarrow> error + unit" where
  "check_accounts [] = Inr ()"
| "check_accounts (val # vals) =
     (if \<not> isnumeric val then Inl (ValueError (''Invalid account number: '' @ val @ ''!''))
      else check_accounts vals)"

definition set_accounts :: "env \<Rightarrow> string list \<Rightarrow> unit engine" where
  "set_accounts e vals =
     (if length vals = 0 then raise (ValueError ''No G/L accounts found!'')
      else
        bind (lift (check_accounts vals)) (\<lambda>_.
        bind (act e (PressButton ''wnd[0]'' ''%_SD_SAKNR_%_APP_%-VALU_PUSH'' ''GuiButton'')) (\<lambda>_.
        bind (press_key e ''ShiftF4'') (\<lambda>_.
        bind (copy_to_clipboard e (join crlf vals)) (\<lambda>_.
        bind (press_key e ''ShiftF12'') (\<lambda>_.
        bind (clear_clipboard e) (\<lambda>_.
        press_key e ''F8'')))))))"

definition set_line_items_selection :: "env \<Rightarrow> string \<Rightarrow> unit engine" where
  "set_line_items_selection e status =
     (if status = ''open'' then act e (SelectRadio ''X_OPSEL'' ''GuiRadioButton'')
      else if status = ''cleared'' then act e (SelectRadio ''X_CLSEL'' ''GuiRadioButton'')
      else if status = ''all'' then act e (SelectRadio ''X_AISEL'' ''GuiRadioButton'')
      else raise (ValueError (''Unrecognized item status: '' @ quoted status)))"

definition toggle_worklist :: "env \<Rightarrow> bool \<Rightarrow> unit engine" where
  "toggle_worklist e activate =
     bind (com e (CountByName ''PA_WLSAK'' ''GuiCTextField'')
             (\<lambda>n. field_count e n ''PA_WLSAK'')) (\<lambda>count.
       let used = (count \<noteq> 0)
       in if (activate \<and> \<not> used) \<or> (\<not> activate \<and> used) then press_key e ''CtrlF1''
          else ret ())"

definition add_filter_criterion :: "env \<Rightarrow> unit engine" where
  "add_filter_criterion e = act e (PressButton ''wnd[1]'' ''APP_WL_SING'' ''GuiButton'')"

definition get_filter_list :: "env \<Rightarrow> unit engine" where
  "get_filter_list e = act e GetFilterList"

text \<open>A cell of the filter list; a row that is not there makes the call fail.\<close>

definition filter_cell :: "env \<Rightarrow> nat \<Rightarrow> string engine" where
  "filter_cell e row_idx =
     (if row_idx < length (filter_fields e)
      then com e (FilterGetCellValue row_idx ''FIELDNAME'') (\<lambda>_. filter_fields e ! row_idx)
      else raise ComError)"

text \<open>The search for the field among the unused filters, left at the first hit.\<close>

fun find_filter :: "env \<Rightarrow> string \<Rightarrow> nat list \<Rightarrow> unit engine" where
  "find_filter e fld_tech_name [] = ret ()"
| "find_filter e fld_tech_name (row_idx # rest) =
     bind (filter_cell e row_idx) (\<lambda>name.
       if name = fld_tech_name
       then bind (act e (FilterSelectedRows row_idx)) (\<lambda>_. add_filter_criterion e)
       else find_filter e fld_tech_name rest)"

definition set_filter :: "env \<Rightarrow> string list \<Rightarrow> string \<Rightarrow> unit engine" where
  "set_filter e vals fld_tech_name =
     bind (press_key e ''CtrlShiftF2'') (\<lambda>_.
     bind (press_key e ''CtrlShiftF6'') (\<lambda>_.
     bind (get_filter_list e) (\<lambda>_.
     bind (com e FilterRowCount (\<lambda>_. length (filter_fields e))) (\<lambda>n.
     bind (find_filter e fld_tech_name [0..<n]) (\<lambda>_.
     bind (act e (PressButton ''wnd[1]'' ''600_BUTTON'' ''GuiButton'')) (\<lambda>_.
     bind (act e (PressButton ''wnd[2]'' ''%_%%DYN001_%_APP_%-VALU_PUSH'' ''GuiButton'')) (\<lambda>_.
     bind (copy_to_clipboard e (join crlf vals)) (\<lambda>_.
     bind (press_key e ''ShiftF12'') (\<lambda>_.
     bind (clear_clipboard e) (\<lambda>_.
     bind (press_key e ''F8'') (\<lambda>_.
     press_key e ''Enter'')))))))))))"

definition grid_id :: string where
  "grid_id = ''usr/cntlGRID1/shellcont/shell/shellcont[1]/shell''"

text \<open>\<open>_load_items\<close> returns the item table; the model returns its id.\<close>

definition load_items :: "env \<Rightarrow> string engine" where
  "load_items e =
     bind (reraise (press_key e ''F8'') (ItemLoadingError ''Could not load account data!'')) (\<lambda>_.
     bind (reraise (com e ReadStatusBar (\<lambda>_. status_text e))
             (SapConnectionLostError ''Connection to SAP lost!'')) (\<lambda>msg.
       if str_in ''No items selected'' msg
       then raise (NoItemsFoundWarning ''No items found using your selection criteria!'')
       else if \<not> str_in ''items displayed'' msg
       then raise (ItemLoadingError msg)
       else bind (act e (FindById grid_id)) (\<lambda>_. ret grid_id)))"

text \<open>A cell of the item table; a row or column that is not there makes the call fail.\<close>

definition grid_cell :: "env \<Rightarrow> nat \<Rightarrow> string \<Rightarrow> string engine" where
  "grid_cell e idx col =
     (if idx < length (grid e) \<and> col = ''SGTXT''
      then com e (GridGetCellValue idx col) (\<lambda>_. fst (grid e ! idx))
      else if idx < length (grid e) \<and> col = ''ZUONR''
      then com e (GridGetCellValue idx col) (\<lambda>_. snd (grid e ! idx))
      else raise ComError)"

definition row_count :: "env \<Rightarrow> nat engine" where
  "row_count e = com e GridRowCount (\<lambda>_. length (grid e))"

definition get_item_params :: "env \<Rightarrow> nat \<Rightarrow> (string \<times> string) engine" where
  "get_item_params e idx =
     bind (act e (GridSelectedRows idx)) (\<lambda>_.
     bind (act e (GridCurrentCellRow idx)) (\<lambda>_.
     bind (grid_cell e idx ''SGTXT'') (\<lambda>text.
     bind (grid_cell e idx ''ZUONR'') (\<lambda>assignment.
     ret (text, assignment)))))"

text \<open>The calls that \<open>_get_item_params\<close> makes for a row.\<close>

definition item_params_calls :: "nat \<Rightarrow> event list" where
  "item_params_calls idx =
     [GridSelectedRows idx, GridCurrentCellRow idx,
      GridGetCellValue idx ''SGTXT'', GridGetCellValue idx ''ZUONR'']"

definition check_prerequisities :: "unit engine" where
  "check_prerequisities s =
     (if \<not> sess_bound s
      then raise (UninitializedModuleError
             ''Uninitialized module! Use the start() procedure to run the transaction first!'') s
      else ret () s)"


section \<open>Change requests and outcomes\<close>

text \<open>
  The value of a request is a dictionary with the keys \<open>new_text\<close> and
  \<open>new_assignment\<close>, each \<open>None\<close> or a string; the outcome adds the key
  \<open>message\<close>.  In the record, \<open>message = None\<close> says that the key is not there.
  A dictionary from old texts to such values is an association list in insertion
  order; its keys are distinct, as a dictionary's are.
\<close>

record entry =
  new_text :: "string option"
  new_assignment :: "string option"
  message :: "string option"

type_synonym params = "(string \<times> entry) list"

text \<open>\<open>d[k]\<close>\<close>

definition getitem :: "params \<Rightarrow> string \<Rightarrow> error + entry" where
  "getitem d k = (case map_of d k of None \<Rightarrow> Inl (KeyError k) | Some v \<Rightarrow> Inr v)"

text \<open>The dictionary with the value under \<open>k\<close> replaced; the keys stay as they are.\<close>

definition replace_value :: "string \<Rightarrow> entry \<Rightarrow> params \<Rightarrow> params" where
  "replace_value k v' d = map (\<lambda>(k', v0). if k' = k then (k', v') else (k', v0)) d"

text \<open>\<open>d[k]\<close> is fetched, changed in place by \<open>f\<close>, which may raise.\<close>

definition entry_update :: "string \<Rightarrow> (entry \<Rightarrow> error + entry) \<Rightarrow> params \<Rightarrow> error + params" where
  "entry_update k f d =
     (case map_of d k of
        None \<Rightarrow> Inl (KeyError k)
      | Some v \<Rightarrow>
          (case f v of
             Inl err \<Rightarrow> Inl err
           | Inr v' \<Rightarrow> Inr (replace_value k v' d)))"

text \<open>\<open>d[k]["message"] = txt\<close>\<close>

definition msg_set :: "string \<Rightarrow> string \<Rightarrow> params \<Rightarrow> error + params" where
  "msg_set k txt = entry_update k (\<lambda>v. Inr (v\<lparr>message := Some txt\<rparr>))"

text \<open>\<open>d[k]["message"] += txt\<close>\<close>

definition msg_append :: "string \<Rightarrow> string \<Rightarrow> params \<Rightarrow> error + params" where
  "msg_append k txt =
     entry_update k (\<lambda>v. case message v of
                           None \<Rightarrow> Inl (KeyError ''message'')
                         | Some m \<Rightarrow> Inr (v\<lparr>message := Some (m @ txt)\<rparr>))"

text \<open>\<open>d[k]["message"] = d[k]["message"].strip()\<close>\<close>

definition msg_strip :: "string \<Rightarrow> params \<Rightarrow> error + params" where
  "msg_strip k =
     entry_update k (\<lambda>v. case message v of
                           None \<Rightarrow> Inl (KeyError ''message'')
                         | Some m \<Rightarrow> Inr (v\<lparr>message := Some (strip m)\<rparr>))"

definition not_found :: string where
  "not_found = ''Document not found on the account!''"

definition text_already :: string where
  "text_already = ''Text aready contains the desired value. ''"

definition assignment_already :: string where
  "assignment_already = ''Assignment aready contains the desired value. ''"

definition text_updated :: string where
  "text_updated = ''Text updated. ''"

definition assignment_updated :: string where
  "assignment_updated = ''Assignment updated. ''"

text \<open>\<open>for itm in output: output[itm]["message"] = "Document not found on the account!"\<close>\<close>

fun default_messages :: "string list \<Rightarrow> params \<Rightarrow> error + params" where
  "default_messages [] output = Inr output"
| "default_messages (itm # itms) output =
     (case msg_set itm not_found output of
        Inl err \<Rightarrow> Inl err
      | Inr output' \<Rightarrow> default_messages itms output')"


section \<open>\<open>change_document_parameters\<close>\<close>

text \<open>
  One pass of the loop over the rows of the item table, for the row \<open>idx\<close>.  The two
  flags start at \<open>True\<close>; each assignment to \<open>output\<close> or to a flag gives the next
  value its own name.  The new values are strings, so \<open>str(new_text)\<close> and
  \<open>str(new_assign)\<close> are the values themselves.
\<close>

definition row_body :: "env \<Rightarrow> params \<Rightarrow> nat \<Rightarrow> params \<Rightarrow> params engine" where
  "row_body e parameters idx output =
     bind (get_item_params e idx) (\<lambda>(old_text, old_assign).
     bind (lift (getitem parameters old_text)) (\<lambda>request.
     let new_text = entry.new_text request;
         new_assign = new_assignment request
     in
     bind (lift (msg_set old_text [] output)) (\<lambda>out1.
     bind (if new_text \<noteq> None \<and> new_text = Some old_text
           then bind (lift (msg_append old_text text_already out1)) (\<lambda>out. ret (out, False))
           else ret (out1, True)) (\<lambda>(out2, text_differs).
     bind (if new_assign \<noteq> None \<and> Some old_assign = new_assign
           then bind (lift (msg_append old_text assignment_already out2)) (\<lambda>out. ret (out, False))
           else ret (out2, True)) (\<lambda>(out3, assign_differs).
     if \<not> (text_differs \<or> assign_differs)
     then lift (msg_strip old_text out3)
     else
       bind (press_key e ''ShiftF2'') (\<lambda>_.
       bind (press_key e ''ShiftF1'') (\<lambda>_.
       bind (case new_text of
               None \<Rightarrow> ret out3
             | Some txt \<Rightarrow>
                 if text_differs
                 then bind (set_text e txt) (\<lambda>_. lift (msg_append old_text text_updated out3))
                 else ret out3) (\<lambda>out4.
       bind (case new_assign of
               None \<Rightarrow> ret out4
             | Some asg \<Rightarrow>
                 if assign_differs
                 then bind (set_assignment e asg) (\<lambda>_.
                        lift (msg_append old_text assignment_updated out4))
                 else ret out4) (\<lambda>out5.
       bind (lift (msg_strip old_text out5)) (\<lambda>out6.
       bind (press_key e ''CtrlS'') (\<lambda>_.
       ret out6)))))))))))"

fun for_rows :: "env \<Rightarrow> params \<Rightarrow> nat list \<Rightarrow> params \<Rightarrow> params engine" where
  "for_rows e parameters [] output = ret output"
| "for_rows e parameters (idx # idxs) output =
     bind (row_body e parameters idx output) (for_rows e parameters idxs)"

definition change_document_parameters ::
  "env \<Rightarrow> string list \<Rightarrow> string \<Rightarrow> params \<Rightarrow> string \<Rightarrow> string \<Rightarrow> params engine" where
  "change_document_parameters e accounts company_code parameters status layout =
     bind check_prerequisities (\<lambda>_.
     bind (toggle_worklist e False) (\<lambda>_.
     bind (set_company_code e company_code) (\<lambda>_.
     bind (set_layout e layout) (\<lambda>_.
     bind (set_accounts e accounts) (\<lambda>_.
     bind (set_line_items_selection e status) (\<lambda>_.
     bind (load_items e) (\<lambda>item_table.
     bind (set_filter e (map fst parameters) ''SGTXT'') (\<lambda>_.
     bind (row_count e) (\<lambda>n0.
     if n0 = 0
     then bind (press_key e ''F3'') (\<lambda>_.
            raise (NoItemsFoundError
              ''Filtering on the searched text values returned no results!''))
     else
       bind (lift (default_messages (map fst parameters) parameters)) (\<lambda>output.
       bind (row_count e) (\<lambda>n.
       bind (for_rows e parameters [0..<n] output) (\<lambda>output'.
       bind (press_key e ''F3'') (\<lambda>_.
       ret output')))))))))))))"


section \<open>A session to run the engine on\<close>

text \<open>
  A session in which no call fails, the main window holds the company code field
  \<open>SD_BUKRS-LOW\<close> and the edit screen the assignment field, the load reports two
  items, and the filtered item table shows the rows \<open>(OLDA, X)\<close> and \<open>(OLDC, Y)\<close>;
  and three change requests, of which \<open>OLDB\<close> has no row.
\<close>

definition scenario_env :: env where
  "scenario_env =
     \<lparr>com_fails = (\<lambda>_. False),
      field_count = (\<lambda>_ name. if name = ''SD_BUKRS-LOW'' \<or> name = ''BSEG-ZUONR'' then 1 else 0),
      status_text = ''2 items displayed'',
      filter_fields = [''BUKRS'', ''SGTXT''],
      grid = [(''OLDA'', ''X''), (''OLDC'', ''Y'')]\<rparr>"

definition scenario_start :: session where
  "scenario_start = \<lparr>sess_bound = True, trace = [], clipboard = []\<rparr>"

definition scenario_requests :: params where
  "scenario_requests =
     [(''OLDA'', \<lparr>new_text = Some ''NEWA'', new_assignment = None, message = None\<rparr>),
      (''OLDB'', \<lparr>new_text = None, new_assignment = Some ''ASG1'', message = None\<rparr>),
      (''OLDC'', \<lparr>new_text = Some ''OLDC'', new_assignment = None, message = None\<rparr>)]"


text \<open>The scenario's outcome and the calls the engine makes on the way to it.\<close>

definition scenario_outcome :: params where
  "scenario_outcome =
     [(''OLDA'', \<lparr>new_text = Some ''NEWA'', new_assignment = None,
                  message = Some ''Text updated.''\<rparr>),
      (''OLDB'', \<lparr>new_text = None, new_assignment = Some ''ASG1'',
                  message = Some ''Document not found on the account!''\<rparr>),
      (''OLDC'', \<lparr>new_text = Some ''OLDC'', new_assignment = None,
                  message = Some ''Text aready contains the desired value.''\<rparr>)]"

definition scenario_calls :: "event list" where
  "scenario_calls =
     [CountByName ''PA_WLSAK'' ''GuiCTextField'',
      CountByName ''SD_BUKRS-LOW'' ''GuiCTextField'',
      SetText ''SD_BUKRS-LOW'' ''GuiCTextField'' ''0075'',
      SetText ''PA_VARI'' ''GuiCTextField'' [],
      PressButton ''wnd[0]'' ''%_SD_SAKNR_%_APP_%-VALU_PUSH'' ''GuiButton'',
      SendVKey 16, CopyToClipboard ''12345678'', SendVKey 24, CopyToClipboard [], SendVKey 8,
      SelectRadio ''X_OPSEL'' ''GuiRadioButton'',
      SendVKey 8, ReadStatusBar, FindById grid_id,
      SendVKey 38, SendVKey 42, GetFilterList, FilterRowCount,
      FilterGetCellValue 0 ''FIELDNAME'', FilterGetCellValue 1 ''FIELDNAME'',
      FilterSelectedRows 1, PressButton ''wnd[1]'' ''APP_WL_SING'' ''GuiButton'',
      PressButton ''wnd[1]'' ''600_BUTTON'' ''GuiButton'',
      PressButton ''wnd[2]'' ''%_%%DYN001_%_APP_%-VALU_PUSH'' ''GuiButton'',
      CopyToClipboard (''OLDA'' @ crlf @ ''OLDB'' @ crlf @ ''OLDC''),
      SendVKey 24, CopyToClipboard [], SendVKey 8, SendVKey 0,
      GridRowCount, GridRowCount,
      GridSelectedRows 0, GridCurrentCellRow 0,
      GridGetCellValue 0 ''SGTXT'', GridGetCellValue 0 ''ZUONR'',
      SendVKey 14, SendVKey 13, SetText ''BSEG-SGTXT'' ''GuiCTextField'' ''NEWA'', SendVKey 11,
      GridSelectedRows 1, GridCurrentCellRow 1,
      GridGetCellValue 1 ''SGTXT'', GridGetCellValue 1 ''ZUONR'',
      SendVKey 14, SendVKey 13, SendVKey 11,
      SendVKey 3]"


text \<open>
  Three variations: an item table whose first row has a text that no request names; an
  item table whose row already holds what its request asks for; a request that asks
  for nothing.  The last two dictionaries carry the default message, so that each also
  is the outcome as the loop over the rows finds it.
\<close>

definition stray_env :: env where
  "stray_env = scenario_env\<lparr>grid := [(''ZZZ'', ''A''), (''OLDA'', ''X'')]\<rparr>"

definition settled_env :: env where
  "settled_env = scenario_env\<lparr>grid := [(''OLDC'', ''Y'')]\<rparr>"

definition settled_requests :: params where
  "settled_requests =
     [(''OLDC'', \<lparr>new_text = Some ''OLDC'', new_assignment = Some ''Y'',
                  message = Some not_found\<rparr>)]"

definition null_requests :: params where
  "null_requests =
     [(''OLDA'', \<lparr>new_text = None, new_assignment = None, message = Some not_found\<rparr>)]"


section \<open>Notions used in the statements and the proofs\<close>

text \<open>
  The decimal digits \<open>0\<close> to \<open>9\<close>, and the ASCII characters.  On ASCII characters
  \<open>str.isnumeric\<close> holds of the decimal digits only.
\<close>

definition decimal_digit :: "char \<Rightarrow> bool" where
  "decimal_digit c = (let n = (of_char c :: nat) in 48 \<le> n \<and> n \<le> 57)"

definition ascii_char :: "char \<Rightarrow> bool" where
  "ascii_char c = ((of_char c :: nat) < 128)"

text \<open>
  The calls that the search of \<open>_set_filter\<close> makes over the rows \<open>idxs\<close> of a filter
  list with the field names \<open>names\<close>; the calls that \<open>_set_accounts\<close> makes; and
  the last calls of \<open>_set_filter\<close>: the values are put on the clipboard, pasted with
  Shift+F12, the clipboard is emptied, and F8 and Enter confirm.
\<close>

fun filter_search_calls :: "string list \<Rightarrow> string \<Rightarrow> nat list \<Rightarrow> event list" where
  "filter_search_calls names fld_tech_name [] = []"
| "filter_search_calls names fld_tech_name (row_idx # rest) =
     FilterGetCellValue row_idx ''FIELDNAME''
       # (if names ! row_idx = fld_tech_name
          then [FilterSelectedRows row_idx, PressButton ''wnd[1]'' ''APP_WL_SING'' ''GuiButton'']
          else filter_search_calls names fld_tech_name rest)"

definition accounts_calls :: "string list \<Rightarrow> event list" where
  "accounts_calls vals =
     [PressButton ''wnd[0]'' ''%_SD_SAKNR_%_APP_%-VALU_PUSH'' ''GuiButton'',
      SendVKey 16, CopyToClipboard (join crlf vals), SendVKey 24, CopyToClipboard [],
      SendVKey 8]"

definition paste_calls :: "string list \<Rightarrow> event list" where
  "paste_calls vals =
     [CopyToClipboard (join crlf vals), SendVKey 24, CopyToClipboard [], SendVKey 8,
      SendVKey 0]"


text \<open>
  The message of a row whose text and assignment are both the requested ones, as
  \<open>strip\<close> leaves it.
\<close>

definition both_already :: string where
  "both_already =
     ''Text aready contains the desired value. Assignment aready contains the desired value.''"

text \<open>Every entry of the dictionary has a message.\<close>

definition with_messages :: "params \<Rightarrow> bool" where
  "with_messages d = list_all (\<lambda>p. message (snd p) \<noteq> None) d"

text \<open>
  \<open>kept d d'\<close>: the dictionary \<open>d'\<close> has the keys of \<open>d\<close>, in the same order, and
  a message in every entry if \<open>d\<close> has one in every entry.  \<open>keeps d m\<close>: whatever
  dictionary the procedure \<open>m\<close> returns is so related to \<open>d\<close>.
\<close>

definition kept :: "params \<Rightarrow> params \<Rightarrow> bool" where
  "kept d d' = (map fst d' = map fst d \<and> (with_messages d \<longrightarrow> with_messages d'))"

definition keeps :: "params \<Rightarrow> params engine \<Rightarrow> bool" where
  "keeps d m = (\<forall>s d' s'. m s = (Inr d', s') \<longrightarrow> kept d d')"

definition keeps_fst :: "params \<Rightarrow> (params \<times> bool) engine \<Rightarrow> bool" where
  "keeps_fst d m = (\<forall>s d' b s'. m s = (Inr (d', b), s') \<longrightarrow> kept d d')"


text \<open>
  \<open>succeeds m\<close>: from every state the procedure \<open>m\<close> returns.  \<open>misses m\<close>: from
  every state it raises the error of a filter without result, and the last call it has
  made is the key \<open>F3\<close>.
\<close>

definition succeeds :: "'a engine \<Rightarrow> bool" where
  "succeeds m = (\<forall>s. \<exists>x s'. m s = (Inr x, s'))"

definition filter_miss :: error where
  "filter_miss = NoItemsFoundError ''Filtering on the searched text values returned no results!''"

definition misses :: "'a engine \<Rightarrow> bool" where
  "misses m = (\<forall>s. \<exists>s'. m s = (Inl filter_miss, s') \<and> trace s' \<noteq> [] \<and> last (trace s') = SendVKey 3)"


section \<open>Running a procedure step by step\<close>

lemma bind_ret: "bind (ret x) f = f x"
  by (rule ext) (simp add: bind_def ret_def)

lemma bind_raise: "bind (raise err) f = raise err"
  by (rule ext) (simp add: bind_def raise_def)

lemma bind_lift_Inr: "bind (lift (Inr x)) f = f x"
  by (rule ext) (simp add: bind_def lift_def)

lemma bind_lift_Inl: "bind (lift (Inl err)) f = raise err"
  by (rule ext) (simp add: bind_def lift_def raise_def)

lemma bind_Inr: "m s = (Inr x, s1) \<Longrightarrow> bind m f s = f x s1"
  by (simp add: bind_def)

lemma bind_Inl: "m s = (Inl err, s1) \<Longrightarrow> bind m f s = (Inl err, s1)"
  by (simp add: bind_def)

lemma bind_InrD:
  "bind m f s = (Inr y, s') \<Longrightarrow> \<exists>x s1. m s = (Inr x, s1) \<and> f x s1 = (Inr y, s')"
  by (auto simp: bind_def split: prod.splits sum.splits)

lemma com_ok:
  "\<not> com_fails e (length (trace s)) \<Longrightarrow>
   com e ev answer s = (Inr (answer (length (trace s))), s\<lparr>trace := trace s @ [ev]\<rparr>)"
  by (simp add: com_def)

lemma com_fail:
  "com_fails e (length (trace s)) \<Longrightarrow> com e ev answer s = (Inl ComError, s)"
  by (simp add: com_def)

lemma act_ok:
  "\<not> com_fails e (length (trace s)) \<Longrightarrow> act e ev s = (Inr (), s\<lparr>trace := trace s @ [ev]\<rparr>)"
  by (simp add: act_def com_ok)

lemma act_fail:
  "com_fails e (length (trace s)) \<Longrightarrow> act e ev s = (Inl ComError, s)"
  by (simp add: act_def com_fail)

lemma press_key_simps:
  "press_key e ''Enter'' = act e (SendVKey 0)"
  "press_key e ''F3'' = act e (SendVKey 3)"
  "press_key e ''F8'' = act e (SendVKey 8)"
  "press_key e ''CtrlS'' = act e (SendVKey 11)"
  "press_key e ''ShiftF1'' = act e (SendVKey 13)"
  "press_key e ''ShiftF2'' = act e (SendVKey 14)"
  "press_key e ''ShiftF4'' = act e (SendVKey 16)"
  "press_key e ''ShiftF12'' = act e (SendVKey 24)"
  "press_key e ''CtrlF1'' = act e (SendVKey 25)"
  "press_key e ''CtrlShiftF2'' = act e (SendVKey 38)"
  "press_key e ''CtrlShiftF6'' = act e (SendVKey 42)"
  by (simp_all add: press_key_def virtual_keys_def)


section \<open>The substring test\<close>

lemma starts_with_iff: "starts_with sub hay \<longleftrightarrow> (\<exists>suf. hay = sub @ suf)"
  by (induction sub hay rule: starts_with.induct) auto

text \<open>\<open>str_in\<close> decides whether the text holds the marker as a contiguous part.\<close>

lemma str_in_iff: "str_in sub hay \<longleftrightarrow> (\<exists>pre suf. hay = pre @ sub @ suf)"
proof (induction hay)
  case Nil
  then show ?case by auto
next
  case (Cons d ds)
  show ?case
  proof
    assume "str_in sub (d # ds)"
    then consider "starts_with sub (d # ds)" | "str_in sub ds" by auto
    then show "\<exists>pre suf. d # ds = pre @ sub @ suf"
    proof cases
      case 1
      then obtain suf where "d # ds = sub @ suf" by (auto simp: starts_with_iff)
      then have "d # ds = [] @ sub @ suf" by simp
      then show ?thesis by blast
    next
      case 2
      then obtain pre suf where "ds = pre @ sub @ suf" using Cons.IH by auto
      then have "d # ds = (d # pre) @ sub @ suf" by simp
      then show ?thesis by blast
    qed
  next
    assume "\<exists>pre suf. d # ds = pre @ sub @ suf"
    then obtain pre suf where eq: "d # ds = pre @ sub @ suf" by auto
    show "str_in sub (d # ds)"
    proof (cases pre)
      case Nil
      with eq have "starts_with sub (d # ds)" by (auto simp: starts_with_iff)
      then show ?thesis by simp
    next
      case (Cons p ps)
      with eq have "ds = ps @ sub @ suf" by simp
      then have "str_in sub ds" using Cons.IH by blast
      then show ?thesis by simp
    qed
  qed
qed


section \<open>The scenario, run\<close>

text \<open>The equations that compute a run of the engine in a given session.\<close>

lemmas run_defs =
  change_document_parameters_def check_prerequisities_def toggle_worklist_def
  set_company_code_def set_layout_def set_accounts_def set_line_items_selection_def
  load_items_def set_filter_def row_count_def row_body_def get_item_params_def
  grid_cell_def filter_cell_def get_filter_list_def add_filter_criterion_def
  set_text_def set_assignment_def
  getitem_def entry_update_def replace_value_def msg_set_def msg_append_def msg_strip_def
  not_found_def text_already_def assignment_already_def text_updated_def
  assignment_updated_def strip_def isspace_char_def isnumeric_def isnumeric_char_def
  bind_def ret_def raise_def lift_def reraise_def com_def act_def copy_to_clipboard_def
  clear_clipboard_def press_key_simps upt_rec Let_def grid_id_def
  scenario_env_def scenario_start_def scenario_requests_def

lemma scenario_run:
  "change_document_parameters scenario_env [''12345678''] ''0075'' scenario_requests ''open'' []
     scenario_start
   = (Inr scenario_outcome, \<lparr>sess_bound = True, trace = scenario_calls, clipboard = []\<rparr>)"
  by (simp add: run_defs scenario_outcome_def scenario_calls_def)

lemma stray_run:
  "change_document_parameters stray_env [''12345678''] ''0075'' scenario_requests ''open'' []
     scenario_start
   = (Inl (KeyError ''ZZZ''),
      \<lparr>sess_bound = True, trace = take 31 scenario_calls @ item_params_calls 0,
        clipboard = []\<rparr>)"
  by (simp add: run_defs stray_env_def scenario_calls_def item_params_calls_def)

lemma settled_run:
  "for_rows settled_env settled_requests [0] settled_requests scenario_start
     = (Inr [(''OLDC'', \<lparr>new_text = Some ''OLDC'', new_assignment = Some ''Y'',
                          message = Some both_already\<rparr>)],
        scenario_start\<lparr>trace := item_params_calls 0\<rparr>)"
  by (simp add: run_defs settled_env_def settled_requests_def both_already_def
      item_params_calls_def)

text \<open>
  C1.  The scenario of three requests against the rows \<open>(OLDA, X)\<close> and
  \<open>(OLDC, Y)\<close>, as the code runs it: \<open>OLDA\<close> ends with \<open>Text updated.\<close>, \<open>OLDB\<close>
  with \<open>Document not found on the account!\<close>, and \<open>OLDC\<close> with the message that the
  source spells \<open>Text aready contains the desired value.\<close>, which is not the message
  \<open>Text already contains the desired value.\<close>  For the row of \<open>OLDC\<close> the engine
  reads the row, opens it for editing and saves it, and writes no field.
\<close>

theorem scenario_messages:
  "fst (change_document_parameters scenario_env [''12345678''] ''0075'' scenario_requests
          ''open'' [] scenario_start) = Inr scenario_outcome
   \<and> map (\<lambda>p. (fst p, message (snd p))) scenario_outcome
       = [(''OLDA'', Some ''Text updated.''),
          (''OLDB'', Some ''Document not found on the account!''),
          (''OLDC'', Some ''Text aready contains the desired value.'')]
   \<and> ''Text aready contains the desired value.'' \<noteq> ''Text already contains the desired value.''
   \<and> trace (snd (change_document_parameters scenario_env [''12345678''] ''0075''
                   scenario_requests ''open'' [] scenario_start)) = scenario_calls
   \<and> dropWhile (\<lambda>ev. ev \<noteq> GridSelectedRows 1) scenario_calls
       = item_params_calls 1 @ [SendVKey 14, SendVKey 13, SendVKey 11, SendVKey 3]"
  by (simp add: scenario_run scenario_outcome_def scenario_calls_def item_params_calls_def)


section \<open>The length guards of the field setters\<close>

text \<open>
  C6.  A new text of more than 50 characters makes \<open>_set_text\<close> raise its
  \<open>ValueError\<close> and leaves the session as it was: nothing is written.  A new
  assignment of more than 18 characters makes \<open>_set_assignment\<close>, once it has counted
  the assignment fields of the screen, raise its \<open>ValueError\<close> when the field is
  there, and return without a write when it is not; in both cases the count is the
  only call made.
\<close>

theorem value_too_long_guard:
  "(length val > 50 \<longrightarrow>
      set_text e val s =
        (Inl (ValueError (''The length of the entered value '' @ quoted val
           @ '' exceeds the allowed maximum of 50 chars for this field!'')), s))
   \<and> (length val > 18 \<and> \<not> com_fails e (length (trace s)) \<longrightarrow>
      set_assignment e val s =
        (if field_count e (length (trace s)) ''BSEG-ZUONR'' = 0 then Inr ()
         else Inl (ValueError (''The length of the entered value '' @ quoted val
           @ '' exceeds the allowed maximum of 18 chars for this field!'')),
         s\<lparr>trace := trace s @ [CountByName ''BSEG-ZUONR'' ''GuiTextField'']\<rparr>))"
  by (simp add: set_text_def set_assignment_def raise_def ret_def bind_def com_ok)

theorem value_too_long_guard_witness:
  "length (replicate 51 (CHR ''a'')) > 50
   \<and> set_text scenario_env (replicate 51 (CHR ''a'')) scenario_start =
       (Inl (ValueError (''The length of the entered value '' @ quoted (replicate 51 (CHR ''a''))
          @ '' exceeds the allowed maximum of 50 chars for this field!'')), scenario_start)
   \<and> length (replicate 19 (CHR ''a'')) > 18
   \<and> \<not> com_fails scenario_env (length (trace scenario_start))
   \<and> set_assignment scenario_env (replicate 19 (CHR ''a'')) scenario_start =
       (Inl (ValueError (''The length of the entered value '' @ quoted (replicate 19 (CHR ''a''))
          @ '' exceeds the allowed maximum of 18 chars for this field!'')),
        scenario_start\<lparr>trace := [CountByName ''BSEG-ZUONR'' ''GuiTextField'']\<rparr>)
   \<and> set_assignment (scenario_env\<lparr>field_count := (\<lambda>_ _. 0)\<rparr>) (replicate 19 (CHR ''a''))
         scenario_start =
       (Inr (), scenario_start\<lparr>trace := [CountByName ''BSEG-ZUONR'' ''GuiTextField'']\<rparr>)"
  using value_too_long_guard [of "replicate 51 (CHR ''a'')" scenario_env scenario_start]
    value_too_long_guard [of "replicate 19 (CHR ''a'')" scenario_env scenario_start]
    value_too_long_guard [of "replicate 19 (CHR ''a'')"
      "scenario_env\<lparr>field_count := (\<lambda>_ _. 0)\<rparr>" scenario_start]
  by (simp add: scenario_env_def scenario_start_def)


section \<open>The company code\<close>

lemma numeric_ascii: "ascii_char c \<Longrightarrow> isnumeric_char c = decimal_digit c"
  by (auto simp: ascii_char_def isnumeric_char_def decimal_digit_def Let_def)

lemma all_numeric_ascii:
  "list_all ascii_char val \<Longrightarrow> list_all isnumeric_char val = list_all decimal_digit val"
  by (induction val) (auto simp: numeric_ascii)

text \<open>
  C7, as the code has it by design.  \<open>_set_company_code\<close> raises its \<open>ValueError\<close>
  for every value that is not empty and not of length four; and of the values made of
  ASCII characters it raises exactly for those that are neither the empty string nor
  four decimal digits, so the empty string is let through.  On the same values the
  guard of \<open>modify_accounting_parameters\<close> raises exactly for those that are not four
  decimal digits, the empty string among them.  Nothing is said of values of length
  four with a character outside ASCII.
\<close>

theorem company_code_validation:
  "(val \<noteq> [] \<and> length val \<noteq> 4 \<longrightarrow>
      fst (set_company_code e val s)
        = Inl (ValueError (''Company code has incorrect value: '' @ quoted val @ ''!'')))
   \<and> (list_all ascii_char val \<longrightarrow>
        (fst (set_company_code e val s)
           = Inl (ValueError (''Company code has incorrect value: '' @ quoted val @ ''!'')))
          = (val \<noteq> [] \<and> \<not> (length val = 4 \<and> list_all decimal_digit val))
        \<and> (modify_accounting_parameters_guards False val
             = Inl (ValueError (''Incorrect company code: '' @ val)))
          = (\<not> (length val = 4 \<and> list_all decimal_digit val)))"
proof -
  have general:
    "(fst (set_company_code e val s)
        = Inl (ValueError (''Company code has incorrect value: '' @ quoted val @ ''!'')))
       = (val \<noteq> [] \<and> \<not> (length val = 4 \<and> list_all isnumeric_char val))"
    "(modify_accounting_parameters_guards False val
        = Inl (ValueError (''Incorrect company code: '' @ val)))
       = (\<not> (length val = 4 \<and> list_all isnumeric_char val))"
    by (auto simp: set_company_code_def modify_accounting_parameters_guards_def raise_def
        ret_def bind_def com_def act_def isnumeric_def Let_def split: prod.splits sum.splits)
  show ?thesis
    using general by (auto simp: all_numeric_ascii)
qed

text \<open>
  The values \<open>075\<close> and \<open>07A5\<close> are refused and \<open>0075\<close> is written to the field;
  the controller refuses the empty string.
\<close>

theorem company_code_validation_witness:
  "list_all ascii_char ''075'' \<and> list_all ascii_char ''07A5'' \<and> list_all ascii_char ''0075''
   \<and> list_all ascii_char []
   \<and> fst (set_company_code scenario_env ''075'' scenario_start)
     = Inl (ValueError (''Company code has incorrect value: '' @ quoted ''075'' @ ''!''))
   \<and> fst (set_company_code scenario_env ''07A5'' scenario_start)
     = Inl (ValueError (''Company code has incorrect value: '' @ quoted ''07A5'' @ ''!''))
   \<and> set_company_code scenario_env ''0075'' scenario_start
     = (Inr (), scenario_start\<lparr>trace := [CountByName ''SD_BUKRS-LOW'' ''GuiCTextField'',
          SetText ''SD_BUKRS-LOW'' ''GuiCTextField'' ''0075'']\<rparr>)
   \<and> modify_accounting_parameters_guards False [] = Inl (ValueError ''Incorrect company code: '')
   \<and> modify_accounting_parameters_guards False ''0075'' = Inr ()"
  using company_code_validation [of "''075''" scenario_env scenario_start]
    company_code_validation [of "''07A5''" scenario_env scenario_start]
    company_code_validation [of "[]" scenario_env scenario_start]
  by (simp add: ascii_char_def decimal_digit_def isnumeric_char_def isnumeric_def
      set_company_code_def
      modify_accounting_parameters_guards_def bind_def com_def act_def ret_def
      scenario_env_def scenario_start_def)

text \<open>
  The empty string is no string of four digits, and \<open>_set_company_code\<close> accepts it:
  it writes it to the company code field.
\<close>

theorem company_code_empty_counterexample:
  "set_company_code scenario_env [] scenario_start
     = (Inr (), scenario_start\<lparr>trace := [CountByName ''SD_BUKRS-LOW'' ''GuiCTextField'',
          SetText ''SD_BUKRS-LOW'' ''GuiCTextField'' []]\<rparr>)"
  by (simp add: set_company_code_def bind_def com_def act_def scenario_env_def
      scenario_start_def)


section \<open>The status line after the load\<close>

lemma reraise_Inr: "m s = (Inr x, s1) \<Longrightarrow> reraise m err s = (Inr x, s1)"
  by (simp add: reraise_def)

lemma reraise_Inl: "m s = (Inl err0, s1) \<Longrightarrow> reraise m err s = (Inl err, s1)"
  by (simp add: reraise_def)

text \<open>
  C2.  Once the load command has gone through, \<open>_load_items\<close> goes by the status
  line: when reading it fails, \<open>SapConnectionLostError\<close>; when the text holds
  \<open>No items selected\<close>, \<open>NoItemsFoundWarning\<close>; when it holds neither that nor
  \<open>items displayed\<close>, \<open>ItemLoadingError\<close> with the text itself; otherwise the item
  table is fetched and returned.
\<close>

theorem load_items_classification:
  assumes "\<not> com_fails e (length (trace s))"
  shows
    "(com_fails e (Suc (length (trace s))) \<longrightarrow>
        fst (load_items e s) = Inl (SapConnectionLostError ''Connection to SAP lost!''))
     \<and> (\<not> com_fails e (Suc (length (trace s))) \<and> str_in ''No items selected'' (status_text e) \<longrightarrow>
        fst (load_items e s)
          = Inl (NoItemsFoundWarning ''No items found using your selection criteria!''))
     \<and> (\<not> com_fails e (Suc (length (trace s))) \<and> \<not> str_in ''No items selected'' (status_text e)
          \<and> \<not> str_in ''items displayed'' (status_text e) \<longrightarrow>
        fst (load_items e s) = Inl (ItemLoadingError (status_text e)))
     \<and> (\<not> com_fails e (Suc (length (trace s))) \<and> \<not> str_in ''No items selected'' (status_text e)
          \<and> str_in ''items displayed'' (status_text e)
          \<and> \<not> com_fails e (Suc (Suc (length (trace s)))) \<longrightarrow>
        fst (load_items e s) = Inr grid_id)"
  using assms
  by (simp add: load_items_def bind_def reraise_def press_key_simps com_def act_def raise_def
      ret_def)


theorem load_items_classification_witness:
  "\<not> com_fails scenario_env (length (trace scenario_start))
   \<and> fst (load_items (scenario_env\<lparr>com_fails := (\<lambda>n. n = 1)\<rparr>) scenario_start)
       = Inl (SapConnectionLostError ''Connection to SAP lost!'')
   \<and> str_in ''No items selected'' ''No items selected (see long text)''
   \<and> fst (load_items (scenario_env\<lparr>status_text := ''No items selected (see long text)''\<rparr>)
         scenario_start)
       = Inl (NoItemsFoundWarning ''No items found using your selection criteria!'')
   \<and> \<not> str_in ''items displayed'' ''Account 1 is blocked''
   \<and> fst (load_items (scenario_env\<lparr>status_text := ''Account 1 is blocked''\<rparr>) scenario_start)
       = Inl (ItemLoadingError ''Account 1 is blocked'')
   \<and> str_in ''items displayed'' (status_text scenario_env)
   \<and> fst (load_items scenario_env scenario_start) = Inr grid_id"
  using load_items_classification [of "scenario_env\<lparr>com_fails := (\<lambda>n. n = 1)\<rparr>" scenario_start]
    load_items_classification
      [of "scenario_env\<lparr>status_text := ''No items selected (see long text)''\<rparr>" scenario_start]
    load_items_classification
      [of "scenario_env\<lparr>status_text := ''Account 1 is blocked''\<rparr>" scenario_start]
    load_items_classification [of scenario_env scenario_start]
  by (simp add: scenario_env_def scenario_start_def)


section \<open>Results of the lifted steps\<close>

lemma lift_InrD: "lift r s = (Inr x, s') \<Longrightarrow> r = Inr x"
  by (simp add: lift_def)

lemma ret_InrD: "ret x s = (Inr y, s') \<Longrightarrow> y = x"
  by (simp add: ret_def)


section \<open>Dictionary updates\<close>

lemma strip_Nil: "strip [] = []"
  by (simp add: strip_def)

lemma keys_replace_value: "map fst (replace_value k v d) = map fst d"
  by (induction d) (auto simp: replace_value_def)

lemma map_of_replace_value:
  "map_of (replace_value k v d) k' = (if k' = k \<and> map_of d k \<noteq> None then Some v else map_of d k')"
  by (induction d) (auto simp: replace_value_def)

lemma replace_value_twice: "replace_value k v2 (replace_value k v1 d) = replace_value k v2 d"
  by (induction d) (auto simp: replace_value_def)

lemma msg_set_Some:
  "map_of d k = Some v \<Longrightarrow> msg_set k txt d = Inr (replace_value k (v\<lparr>message := Some txt\<rparr>) d)"
  by (simp add: msg_set_def entry_update_def)

lemma msg_append_Some:
  "map_of d k = Some v \<Longrightarrow> message v = Some m \<Longrightarrow>
   msg_append k txt d = Inr (replace_value k (v\<lparr>message := Some (m @ txt)\<rparr>) d)"
  by (simp add: msg_append_def entry_update_def)

lemma msg_strip_Some:
  "map_of d k = Some v \<Longrightarrow> message v = Some m \<Longrightarrow>
   msg_strip k d = Inr (replace_value k (v\<lparr>message := Some (strip m)\<rparr>) d)"
  by (simp add: msg_strip_def entry_update_def)

lemma entry_update_keys: "entry_update k f d = Inr d' \<Longrightarrow> map fst d' = map fst d"
  by (auto simp: entry_update_def keys_replace_value split: option.splits sum.splits)

lemma with_messages_replace:
  "with_messages d \<Longrightarrow> message v \<noteq> None \<Longrightarrow> with_messages (replace_value k v d)"
  by (induction d) (auto simp: with_messages_def replace_value_def)

lemma msg_set_keys: "msg_set k txt d = Inr d' \<Longrightarrow> map fst d' = map fst d"
  unfolding msg_set_def by (rule entry_update_keys)

lemma msg_append_keys: "msg_append k txt d = Inr d' \<Longrightarrow> map fst d' = map fst d"
  unfolding msg_append_def by (rule entry_update_keys)

lemma msg_strip_keys: "msg_strip k d = Inr d' \<Longrightarrow> map fst d' = map fst d"
  unfolding msg_strip_def by (rule entry_update_keys)

lemma msg_set_messages: "msg_set k txt d = Inr d' \<Longrightarrow> with_messages d \<Longrightarrow> with_messages d'"
  by (auto simp: msg_set_def entry_update_def with_messages_replace split: option.splits)

lemma msg_append_messages:
  "msg_append k txt d = Inr d' \<Longrightarrow> with_messages d \<Longrightarrow> with_messages d'"
  by (auto simp: msg_append_def entry_update_def with_messages_replace
      split: option.splits sum.splits)

lemma msg_strip_messages:
  "msg_strip k d = Inr d' \<Longrightarrow> with_messages d \<Longrightarrow> with_messages d'"
  by (auto simp: msg_strip_def entry_update_def with_messages_replace
      split: option.splits sum.splits)

lemma in_replace_value:
  "p \<in> set (replace_value k v d) \<Longrightarrow> p = (k, v) \<or> (p \<in> set d \<and> fst p \<noteq> k)"
  by (induction d) (auto simp: replace_value_def split: if_splits)

text \<open>The default message reaches every entry whose key the loop visits.\<close>

lemma default_messages_sets:
  "default_messages ks d = Inr d' \<Longrightarrow>
   \<forall>p\<in>set d. fst p \<in> K \<longrightarrow> message (snd p) \<noteq> None \<Longrightarrow>
   map fst d' = map fst d \<and> (\<forall>p\<in>set d'. fst p \<in> K \<union> set ks \<longrightarrow> message (snd p) \<noteq> None)"
proof (induction ks arbitrary: d K)
  case Nil
  then show ?case by simp
next
  case (Cons k ks)
  from Cons.prems(1) obtain d1 where
    d1: "msg_set k not_found d = Inr d1" and rest: "default_messages ks d1 = Inr d'"
    by (auto split: sum.splits)
  from d1 have keys1: "map fst d1 = map fst d" by (rule msg_set_keys)
  from d1 obtain v where "d1 = replace_value k (v\<lparr>message := Some not_found\<rparr>) d"
    by (auto simp: msg_set_def entry_update_def split: option.splits)
  with Cons.prems(2)
  have "\<forall>p\<in>set d1. fst p \<in> insert k K \<longrightarrow> message (snd p) \<noteq> None"
    by (auto dest!: in_replace_value)
  from Cons.IH [OF rest this] keys1 show ?case by simp
qed

lemma default_messages_complete:
  assumes "default_messages (map fst d) d = Inr d'"
  shows "map fst d' = map fst d \<and> with_messages d'"
proof -
  have "\<forall>p\<in>set d. fst p \<in> {} \<longrightarrow> message (snd p) \<noteq> None"
    by simp
  from default_messages_sets [OF assms this]
  have keys: "map fst d' = map fst d"
    and all: "\<forall>p\<in>set d'. fst p \<in> {} \<union> set (map fst d) \<longrightarrow> message (snd p) \<noteq> None"
    by auto
  have "\<forall>p\<in>set d'. fst p \<in> set (map fst d)"
    using keys by (metis image_eqI set_map)
  with all have "with_messages d'"
    by (auto simp: with_messages_def list_all_iff)
  with keys show ?thesis by simp
qed

lemma kept_refl: "kept d d"
  by (simp add: kept_def)

lemma kept_trans: "kept d1 d2 \<Longrightarrow> kept d2 d3 \<Longrightarrow> kept d1 d3"
  by (simp add: kept_def)

lemma kept_msg_set: "msg_set k txt d = Inr d' \<Longrightarrow> kept d d'"
  by (simp add: kept_def msg_set_keys msg_set_messages)

lemma kept_msg_append: "msg_append k txt d = Inr d' \<Longrightarrow> kept d d'"
  by (simp add: kept_def msg_append_keys msg_append_messages)

lemma kept_msg_strip: "msg_strip k d = Inr d' \<Longrightarrow> kept d d'"
  by (simp add: kept_def msg_strip_keys msg_strip_messages)

lemma keeps_ret: "kept d d1 \<Longrightarrow> keeps d (ret d1)"
  by (simp add: keeps_def ret_def)

lemma keeps_fst_ret: "kept d d1 \<Longrightarrow> keeps_fst d (ret (d1, b))"
  by (simp add: keeps_fst_def ret_def)

lemma keeps_msg_set: "kept d d1 \<Longrightarrow> keeps d (lift (msg_set k txt d1))"
  by (auto simp: keeps_def lift_def dest: kept_msg_set kept_trans)

lemma keeps_msg_append: "kept d d1 \<Longrightarrow> keeps d (lift (msg_append k txt d1))"
  by (auto simp: keeps_def lift_def dest: kept_msg_append kept_trans)

lemma keeps_msg_strip: "kept d d1 \<Longrightarrow> keeps d (lift (msg_strip k d1))"
  by (auto simp: keeps_def lift_def dest: kept_msg_strip kept_trans)

lemma keeps_bind: "keeps d m \<Longrightarrow> (\<And>d1. kept d d1 \<Longrightarrow> keeps d (f d1)) \<Longrightarrow> keeps d (bind m f)"
  unfolding keeps_def by (fastforce dest!: bind_InrD)

lemma keeps_bind_fst:
  "keeps_fst d m \<Longrightarrow> (\<And>d1 b. kept d d1 \<Longrightarrow> keeps d (f (d1, b))) \<Longrightarrow> keeps d (bind m f)"
  unfolding keeps_def keeps_fst_def by (fastforce dest!: bind_InrD)

lemma keeps_fst_bind:
  "keeps d m \<Longrightarrow> (\<And>d1. kept d d1 \<Longrightarrow> keeps_fst d (f d1)) \<Longrightarrow> keeps_fst d (bind m f)"
  unfolding keeps_def keeps_fst_def by (fastforce dest!: bind_InrD)

lemma keeps_after: "(\<And>x. keeps d (f x)) \<Longrightarrow> keeps d (bind m f)"
  unfolding keeps_def by (fastforce dest!: bind_InrD)

lemma keeps_already:
  "kept d d1 \<Longrightarrow>
   keeps_fst d (if c then bind (lift (msg_append k txt d1)) (\<lambda>out. ret (out, False))
                else ret (d1, True))"
  by (simp add: keeps_fst_bind keeps_msg_append keeps_fst_ret)

lemma keeps_write_text:
  "kept d d1 \<Longrightarrow>
   keeps d (case nt of None \<Rightarrow> ret d1
            | Some txt \<Rightarrow> if b then bind (set_text e txt) (\<lambda>_. lift (msg_append k upd d1))
                          else ret d1)"
  by (simp add: keeps_after keeps_msg_append keeps_ret split: option.splits)

lemma keeps_write_assignment:
  "kept d d1 \<Longrightarrow>
   keeps d (case na of None \<Rightarrow> ret d1
            | Some asg \<Rightarrow> if b then bind (set_assignment e asg) (\<lambda>_. lift (msg_append k upd d1))
                          else ret d1)"
  by (simp add: keeps_after keeps_msg_append keeps_ret split: option.splits)

lemma row_body_keeps: "keeps d (row_body e parameters idx d)"
  unfolding row_body_def Let_def
  apply (rule keeps_after)
  apply (simp only: split_paired_all prod.case)
  apply (rule keeps_after)
  apply (rule keeps_bind [OF keeps_msg_set [OF kept_refl]])
  apply (rule keeps_bind_fst [OF keeps_already], assumption)
  apply (simp only: prod.case)
  apply (rule keeps_bind_fst [OF keeps_already], assumption)
  apply (simp only: prod.case)
  apply (simp add: keeps_msg_strip keeps_after keeps_bind keeps_write_text
    keeps_write_assignment keeps_ret)
  done

lemma row_body_kept: "row_body e parameters idx d s = (Inr d', s') \<Longrightarrow> kept d d'"
  using row_body_keeps [of d e parameters idx] unfolding keeps_def by blast

lemma for_rows_kept:
  "for_rows e parameters idxs d s = (Inr d', s') \<Longrightarrow> kept d d'"
proof (induction idxs arbitrary: d s)
  case Nil
  then show ?case by (simp add: ret_def kept_refl)
next
  case (Cons idx idxs)
  from Cons.prems obtain d1 s1 where
    "row_body e parameters idx d s = (Inr d1, s1)"
    and "for_rows e parameters idxs d1 s1 = (Inr d', s')"
    by (auto dest!: bind_InrD)
  then show ?case using row_body_kept Cons.IH kept_trans by blast
qed


section \<open>One row of the item table\<close>

lemma get_item_params_ok:
  assumes "\<forall>n. \<not> com_fails e n" and "idx < length (grid e)"
  shows "get_item_params e idx s
           = (Inr (grid e ! idx), s\<lparr>trace := trace s @ item_params_calls idx\<rparr>)"
  using assms
  by (simp add: get_item_params_def item_params_calls_def bind_def act_def com_def
      grid_cell_def ret_def)

lemma strip_both_already: "strip (text_already @ assignment_already) = both_already"
  by (simp add: strip_def text_already_def assignment_already_def both_already_def
      isspace_char_def)


text \<open>
  C10.  A row whose request has neither a new text nor a new assignment: both flags
  stay \<open>True\<close>, so the engine opens the row for editing (Shift+F2, Shift+F1) and saves
  it (Ctrl+S) although it writes no field, and the row's message, whatever it was,
  becomes the empty string.
\<close>

theorem null_request_row:
  assumes "\<forall>n. \<not> com_fails e n"
    and "idx < length (grid e)"
    and "grid e ! idx = (old_text, old_assign)"
    and "map_of parameters old_text = Some request"
    and "new_text request = None"
    and "new_assignment request = None"
    and "map_of output old_text = Some v"
  shows "row_body e parameters idx output s
           = (Inr (replace_value old_text (v\<lparr>message := Some []\<rparr>) output),
              s\<lparr>trace := trace s @ item_params_calls idx
                           @ [SendVKey 14, SendVKey 13, SendVKey 11]\<rparr>)"
proof -
  let ?out1 = "replace_value old_text (v\<lparr>message := Some []\<rparr>) output"
  have m1: "msg_set old_text [] output = Inr ?out1"
    using assms(7) by (rule msg_set_Some)
  have look: "map_of ?out1 old_text = Some (v\<lparr>message := Some []\<rparr>)"
    using assms(7) by (simp add: map_of_replace_value)
  have m2: "msg_strip old_text ?out1 = Inr ?out1"
    using msg_strip_Some [OF look, of "[]"] by (simp add: strip_Nil replace_value_twice)
  show ?thesis
    using assms(1-6) m1 m2
    by (simp add: row_body_def get_item_params_ok getitem_def bind_def lift_def ret_def
        press_key_simps act_def com_def Let_def)
qed

theorem null_request_row_witness:
  "(\<forall>n. \<not> com_fails scenario_env n)
   \<and> 0 < length (grid scenario_env)
   \<and> grid scenario_env ! 0 = (''OLDA'', ''X'')
   \<and> map_of null_requests ''OLDA''
       = Some \<lparr>new_text = None, new_assignment = None, message = Some not_found\<rparr>
   \<and> row_body scenario_env null_requests 0 null_requests scenario_start
       = (Inr [(''OLDA'', \<lparr>new_text = None, new_assignment = None, message = Some []\<rparr>)],
          scenario_start\<lparr>trace := item_params_calls 0
                                    @ [SendVKey 14, SendVKey 13, SendVKey 11]\<rparr>)"
  using null_request_row [of scenario_env 0 "''OLDA''" "''X''" null_requests
      "\<lparr>new_text = None, new_assignment = None, message = Some not_found\<rparr>" null_requests
      "\<lparr>new_text = None, new_assignment = None, message = Some not_found\<rparr>" scenario_start]
  by (simp add: scenario_env_def scenario_start_def null_requests_def replace_value_def)

text \<open>
  C5, as the code has it.  A row whose text is no key of the requests stops the loop:
  \<open>parameters[old_text]\<close> raises \<open>KeyError\<close> once the row is read, no further call
  is made, the rows after it are not visited and no outcome is returned.
\<close>

theorem stray_row_raises:
  assumes "\<forall>n. \<not> com_fails e n"
    and "idx < length (grid e)"
    and "grid e ! idx = (old_text, old_assign)"
    and "map_of parameters old_text = None"
  shows "for_rows e parameters (idx # idxs) output s
           = (Inl (KeyError old_text), s\<lparr>trace := trace s @ item_params_calls idx\<rparr>)"
  using assms
  by (simp add: row_body_def get_item_params_ok getitem_def bind_def lift_def)

text \<open>
  In the item table whose first row reads \<open>ZZZ\<close>, the engine stops with
  \<open>KeyError\<close> at that row and never selects the second row, whose text \<open>OLDA\<close> is
  requested.
\<close>

theorem stray_row_counterexample:
  "fst (change_document_parameters stray_env [''12345678''] ''0075'' scenario_requests ''open''
          [] scenario_start) = Inl (KeyError ''ZZZ'')
   \<and> grid stray_env ! 1 = (''OLDA'', ''X'')
   \<and> GridSelectedRows 1
       \<notin> set (trace (snd (change_document_parameters stray_env [''12345678''] ''0075''
                             scenario_requests ''open'' [] scenario_start)))"
proof -
  have "grid stray_env ! 1 = (''OLDA'', ''X'')"
    by (simp add: stray_env_def scenario_env_def)
  moreover have "GridSelectedRows 1 \<notin> set (take 31 scenario_calls @ item_params_calls 0)"
    by (simp add: scenario_calls_def item_params_calls_def)
  ultimately show ?thesis
    by (simp add: stray_run)
qed

theorem stray_row_raises_witness:
  "(\<forall>n. \<not> com_fails stray_env n)
   \<and> 0 < length (grid stray_env)
   \<and> grid stray_env ! 0 = (''ZZZ'', ''A'')
   \<and> map_of scenario_requests ''ZZZ'' = None
   \<and> for_rows stray_env scenario_requests [0, 1] scenario_requests scenario_start
       = (Inl (KeyError ''ZZZ''), scenario_start\<lparr>trace := item_params_calls 0\<rparr>)"
  using stray_row_raises [of stray_env 0 "''ZZZ''" "''A''" scenario_requests "[1]"
      scenario_requests scenario_start]
  by (simp add: stray_env_def scenario_env_def scenario_start_def scenario_requests_def)


section \<open>Rows that already hold the requested values\<close>

lemma settled_row:
  assumes "\<forall>n. \<not> com_fails e n"
    and "idx < length (grid e)"
    and "grid e ! idx = (old_text, old_assign)"
    and "map_of parameters old_text = Some request"
    and "new_text request = Some old_text"
    and "new_assignment request = Some old_assign"
    and "map_of output old_text = Some v"
  shows "row_body e parameters idx output s
           = (Inr (replace_value old_text (v\<lparr>message := Some both_already\<rparr>) output),
              s\<lparr>trace := trace s @ item_params_calls idx\<rparr>)"
proof -
  let ?out1 = "replace_value old_text (v\<lparr>message := Some []\<rparr>) output"
  let ?out2 = "replace_value old_text (v\<lparr>message := Some text_already\<rparr>) output"
  let ?out3 = "replace_value old_text
                 (v\<lparr>message := Some (text_already @ assignment_already)\<rparr>) output"
  let ?out4 = "replace_value old_text (v\<lparr>message := Some both_already\<rparr>) output"
  have m1: "msg_set old_text [] output = Inr ?out1"
    using assms(7) by (rule msg_set_Some)
  have look1: "map_of ?out1 old_text = Some (v\<lparr>message := Some []\<rparr>)"
    using assms(7) by (simp add: map_of_replace_value)
  have m2: "msg_append old_text text_already ?out1 = Inr ?out2"
    using msg_append_Some [OF look1, of "[]" text_already] by (simp add: replace_value_twice)
  have look2: "map_of ?out2 old_text = Some (v\<lparr>message := Some text_already\<rparr>)"
    using assms(7) by (simp add: map_of_replace_value)
  have m3: "msg_append old_text assignment_already ?out2 = Inr ?out3"
    using msg_append_Some [OF look2, of text_already assignment_already]
    by (simp add: replace_value_twice)
  have look3: "map_of ?out3 old_text
                 = Some (v\<lparr>message := Some (text_already @ assignment_already)\<rparr>)"
    using assms(7) by (simp add: map_of_replace_value)
  have m4: "msg_strip old_text ?out3 = Inr ?out4"
    using msg_strip_Some [OF look3, of "text_already @ assignment_already"]
    by (simp add: replace_value_twice strip_both_already)
  show ?thesis
    using assms(1-6) m1 m2 m3 m4
    by (simp add: row_body_def get_item_params_ok getitem_def bind_def lift_def ret_def Let_def)
qed

lemma settled_rows_loop:
  assumes "\<forall>n. \<not> com_fails e n"
    and "\<forall>i\<in>set idxs. i < length (grid e) \<and>
           (\<exists>request. map_of parameters (fst (grid e ! i)) = Some request
              \<and> new_text request = Some (fst (grid e ! i))
              \<and> new_assignment request = Some (snd (grid e ! i)))"
    and "map fst dict = map fst parameters"
  shows "\<exists>out'. for_rows e parameters idxs dict s
                   = (Inr out', s\<lparr>trace := trace s @ concat (map item_params_calls idxs)\<rparr>)
           \<and> map fst out' = map fst dict
           \<and> (\<forall>i\<in>set idxs. \<exists>v. map_of out' (fst (grid e ! i)) = Some v
                 \<and> message v = Some both_already)
           \<and> (\<forall>k. k \<notin> (\<lambda>i. fst (grid e ! i)) ` set idxs \<longrightarrow> map_of out' k = map_of dict k)"
  using assms(2,3)
proof (induction idxs arbitrary: dict s)
  case Nil
  then show ?case by (simp add: ret_def)
next
  case (Cons idx idxs)
  obtain t a where row: "grid e ! idx = (t, a)" by (cases "grid e ! idx")
  from Cons.prems(1) row obtain request where
    idx: "idx < length (grid e)" and req: "map_of parameters t = Some request"
    and nt: "new_text request = Some t" and na: "new_assignment request = Some a"
    by auto
  from req have "t \<in> set (map fst parameters)"
    by (metis map_of_eq_None_iff option.distinct(1) set_map)
  then have "map_of dict t \<noteq> None"
    using Cons.prems(2) by (metis map_of_eq_None_iff set_map)
  then obtain v where v: "map_of dict t = Some v" by auto
  let ?d1 = "replace_value t (v\<lparr>message := Some both_already\<rparr>) dict"
  let ?s1 = "s\<lparr>trace := trace s @ item_params_calls idx\<rparr>"
  have step: "row_body e parameters idx dict s = (Inr ?d1, ?s1)"
    by (rule settled_row [OF assms(1) idx row req nt na v])
  have keys1: "map fst ?d1 = map fst parameters"
    using Cons.prems(2) by (simp add: keys_replace_value)
  from Cons.prems(1) have rest: "\<forall>i\<in>set idxs. i < length (grid e) \<and>
           (\<exists>request. map_of parameters (fst (grid e ! i)) = Some request
              \<and> new_text request = Some (fst (grid e ! i))
              \<and> new_assignment request = Some (snd (grid e ! i)))"
    by simp
  from Cons.IH [OF rest keys1, of ?s1] obtain out' where
    run: "for_rows e parameters idxs ?d1 ?s1
            = (Inr out', ?s1\<lparr>trace := trace ?s1 @ concat (map item_params_calls idxs)\<rparr>)"
    and keys: "map fst out' = map fst ?d1"
    and msgs: "\<forall>i\<in>set idxs. \<exists>v. map_of out' (fst (grid e ! i)) = Some v
                 \<and> message v = Some both_already"
    and others: "\<forall>k. k \<notin> (\<lambda>i. fst (grid e ! i)) ` set idxs \<longrightarrow> map_of out' k = map_of ?d1 k"
    by blast
  have "for_rows e parameters (idx # idxs) dict s
          = (Inr out', s\<lparr>trace := trace s @ concat (map item_params_calls (idx # idxs))\<rparr>)"
    using step run by (simp add: bind_def)
  moreover have "map fst out' = map fst dict"
    using keys by (simp add: keys_replace_value)
  moreover have "\<exists>v'. map_of out' (fst (grid e ! idx)) = Some v' \<and> message v' = Some both_already"
  proof (cases "t \<in> (\<lambda>i. fst (grid e ! i)) ` set idxs")
    case True
    then show ?thesis using msgs row by auto
  next
    case False
    then have "map_of out' t = map_of ?d1 t" using others by blast
    then show ?thesis using v row by (simp add: map_of_replace_value)
  qed
  moreover have "\<forall>k. k \<notin> (\<lambda>i. fst (grid e ! i)) ` set (idx # idxs) \<longrightarrow> map_of out' k = map_of dict k"
    using others row by (auto simp: map_of_replace_value)
  ultimately show ?case using msgs by auto
qed

text \<open>
  C4.  When every row visited already holds the text and the assignment its request
  asks for, the loop only reads the rows: the calls it makes are those of
  \<open>_get_item_params\<close>, so no field is written, no row opened for editing and nothing
  saved, however often it is run; every such row's entry ends with the two
  \<open>aready contains the desired value\<close> phrases as its message.
\<close>

theorem settled_rows_untouched:
  assumes "\<forall>n. \<not> com_fails e n"
    and "\<forall>i\<in>set idxs. i < length (grid e) \<and>
           (\<exists>request. map_of parameters (fst (grid e ! i)) = Some request
              \<and> new_text request = Some (fst (grid e ! i))
              \<and> new_assignment request = Some (snd (grid e ! i)))"
    and "map fst dict = map fst parameters"
  shows "\<exists>out'. for_rows e parameters idxs dict s
                   = (Inr out', s\<lparr>trace := trace s @ concat (map item_params_calls idxs)\<rparr>)
           \<and> map fst out' = map fst dict
           \<and> (\<forall>i\<in>set idxs. \<exists>v. map_of out' (fst (grid e ! i)) = Some v
                 \<and> message v = Some both_already)"
  using settled_rows_loop [OF assms, of s] by blast

theorem settled_rows_untouched_witness:
  "(\<forall>n. \<not> com_fails settled_env n)
   \<and> 0 < length (grid settled_env)
   \<and> grid settled_env ! 0 = (''OLDC'', ''Y'')
   \<and> map_of settled_requests ''OLDC''
       = Some \<lparr>new_text = Some ''OLDC'', new_assignment = Some ''Y'', message = Some not_found\<rparr>
   \<and> for_rows settled_env settled_requests [0] settled_requests scenario_start
       = (Inr [(''OLDC'', \<lparr>new_text = Some ''OLDC'', new_assignment = Some ''Y'',
                            message = Some both_already\<rparr>)],
          scenario_start\<lparr>trace := item_params_calls 0\<rparr>)"
proof -
  have nf: "\<forall>n. \<not> com_fails settled_env n"
    by (simp add: settled_env_def scenario_env_def)
  have row: "grid settled_env ! 0 = (''OLDC'', ''Y'')" and len: "0 < length (grid settled_env)"
    by (simp_all add: settled_env_def scenario_env_def)
  have req: "map_of settled_requests ''OLDC''
       = Some \<lparr>new_text = Some ''OLDC'', new_assignment = Some ''Y'', message = Some not_found\<rparr>"
    by (simp add: settled_requests_def)
  have rows: "\<forall>i\<in>set [0]. i < length (grid settled_env) \<and>
           (\<exists>request. map_of settled_requests (fst (grid settled_env ! i)) = Some request
              \<and> new_text request = Some (fst (grid settled_env ! i))
              \<and> new_assignment request = Some (snd (grid settled_env ! i)))"
    using row len req by simp
  from settled_rows_untouched [OF nf rows refl, of scenario_start]
  obtain out' where
    "for_rows settled_env settled_requests [0] settled_requests scenario_start
       = (Inr out', scenario_start\<lparr>trace := trace scenario_start
            @ concat (map item_params_calls [0])\<rparr>)"
    by blast
  with settled_run have "for_rows settled_env settled_requests [0] settled_requests scenario_start
       = (Inr [(''OLDC'', \<lparr>new_text = Some ''OLDC'', new_assignment = Some ''Y'',
                            message = Some both_already\<rparr>)],
          scenario_start\<lparr>trace := item_params_calls 0\<rparr>)"
    by simp
  with nf row len req show ?thesis by blast
qed


section \<open>The outcome has every key of the requests\<close>

lemma once_in_distinct:
  "distinct (map fst d) \<Longrightarrow> k \<in> set (map fst d) \<Longrightarrow> length (filter (\<lambda>p. fst p = k) d) = 1"
proof (induction d)
  case Nil
  then show ?case by simp
next
  case (Cons p d)
  show ?case
  proof (cases "fst p = k")
    case True
    with Cons.prems(1) have "k \<notin> fst ` set d" by simp
    then have "\<forall>q\<in>set d. fst q \<noteq> k" by force
    then have "filter (\<lambda>q. fst q = k) d = []" by (simp add: filter_empty_conv)
    with True show ?thesis by simp
  next
    case False
    with Cons show ?thesis by auto
  qed
qed

lemma raise_not_Inr: "raise err s = (Inr x, s') \<Longrightarrow> False"
  by (simp add: raise_def)

text \<open>
  C3.  When \<open>change_document_parameters\<close> returns, the outcome has the keys of the
  requests, in their order, each once, and every entry has a message.
\<close>

theorem outcome_complete:
  assumes "change_document_parameters e accounts company_code parameters status layout s
             = (Inr out, s')"
    and "distinct (map fst parameters)"
  shows "map fst out = map fst parameters
         \<and> (\<forall>k\<in>set (map fst parameters).
               length (filter (\<lambda>p. fst p = k) out) = 1
               \<and> (\<exists>v m. map_of out k = Some v \<and> message v = Some m))"
proof -
  from assms(1) obtain d0 n s1 s2 where
    init: "default_messages (map fst parameters) parameters = Inr d0"
    and loop: "for_rows e parameters [0..<n] d0 s1 = (Inr out, s2)"
    unfolding change_document_parameters_def
    by (fastforce simp: ret_def split: if_splits dest!: bind_InrD lift_InrD raise_not_Inr)
  from default_messages_complete [OF init]
  have keys0: "map fst d0 = map fst parameters" and msgs0: "with_messages d0" by auto
  from for_rows_kept [OF loop] keys0 msgs0
  have keys: "map fst out = map fst parameters" and msgs: "with_messages out"
    by (auto simp: kept_def)
  have "length (filter (\<lambda>p. fst p = k) out) = 1
          \<and> (\<exists>v m. map_of out k = Some v \<and> message v = Some m)"
    if k: "k \<in> set (map fst parameters)" for k
  proof
    show "length (filter (\<lambda>p. fst p = k) out) = 1"
      using once_in_distinct [of out k] assms(2) keys k by simp
    from k keys have "map_of out k \<noteq> None"
      by (metis map_of_eq_None_iff set_map)
    then obtain v where v: "map_of out k = Some v" by auto
    then have "(k, v) \<in> set out" by (rule map_of_SomeD)
    with msgs have "message v \<noteq> None"
      by (auto simp: with_messages_def list_all_iff)
    with v show "\<exists>v m. map_of out k = Some v \<and> message v = Some m" by auto
  qed
  with keys show ?thesis by blast
qed

theorem outcome_complete_witness:
  "change_document_parameters scenario_env [''12345678''] ''0075'' scenario_requests ''open'' []
     scenario_start
   = (Inr scenario_outcome, \<lparr>sess_bound = True, trace = scenario_calls, clipboard = []\<rparr>)
   \<and> distinct (map fst scenario_requests)
   \<and> map fst scenario_outcome = map fst scenario_requests
   \<and> length (filter (\<lambda>p. fst p = ''OLDB'') scenario_outcome) = 1
   \<and> map_of scenario_outcome ''OLDB''
       = Some \<lparr>new_text = None, new_assignment = Some ''ASG1'',
               message = Some ''Document not found on the account!''\<rparr>"
proof -
  have d: "distinct (map fst scenario_requests)"
    by (simp add: scenario_requests_def)
  have k: "''OLDB'' \<in> set (map fst scenario_requests)"
    by (simp add: scenario_requests_def)
  from outcome_complete [OF scenario_run d] k
  have "map fst scenario_outcome = map fst scenario_requests"
    and "length (filter (\<lambda>p. fst p = ''OLDB'') scenario_outcome) = 1"
    by blast+
  moreover have "map_of scenario_outcome ''OLDB''
       = Some \<lparr>new_text = None, new_assignment = Some ''ASG1'',
               message = Some ''Document not found on the account!''\<rparr>"
    by (simp add: scenario_outcome_def)
  ultimately show ?thesis using scenario_run d by blast
qed


section \<open>A filter without result\<close>

lemma succeeds_ret: "succeeds (ret x)"
  by (simp add: succeeds_def ret_def)

lemma succeeds_bind: "succeeds m \<Longrightarrow> (\<And>x. succeeds (f x)) \<Longrightarrow> succeeds (bind m f)"
  unfolding succeeds_def bind_def
  by (metis (mono_tags, lifting) old.prod.case old.sum.simps(6))

lemma misses_bind: "succeeds m \<Longrightarrow> (\<And>x. misses (f x)) \<Longrightarrow> misses (bind m f)"
  unfolding succeeds_def misses_def bind_def
  by (metis (mono_tags, lifting) old.prod.case old.sum.simps(6))

lemma succeeds_com: "\<forall>n. \<not> com_fails e n \<Longrightarrow> succeeds (com e ev answer)"
  by (simp add: succeeds_def com_def)

lemma succeeds_act: "\<forall>n. \<not> com_fails e n \<Longrightarrow> succeeds (act e ev)"
  by (simp add: act_def succeeds_com)

lemma succeeds_reraise: "succeeds m \<Longrightarrow> succeeds (reraise m err)"
  unfolding succeeds_def reraise_def
  by (metis (mono_tags, lifting) old.prod.case old.sum.simps(6))

lemma succeeds_bind_com:
  "\<forall>n. \<not> com_fails e n \<Longrightarrow> (\<And>n. succeeds (f (answer n))) \<Longrightarrow>
   succeeds (bind (com e ev answer) f)"
  by (simp add: succeeds_def bind_def com_def)

lemma misses_bind_com:
  "\<forall>n. \<not> com_fails e n \<Longrightarrow> (\<And>n. misses (f (answer n))) \<Longrightarrow>
   misses (bind (com e ev answer) f)"
  by (simp add: misses_def bind_def com_def)

lemma succeeds_copy: "\<forall>n. \<not> com_fails e n \<Longrightarrow> succeeds (copy_to_clipboard e txt)"
  by (simp add: copy_to_clipboard_def succeeds_def bind_def act_def com_def)

lemma succeeds_toggle_worklist:
  "\<forall>n. \<not> com_fails e n \<Longrightarrow> succeeds (toggle_worklist e activate)"
  unfolding toggle_worklist_def
  by (rule succeeds_bind) (simp_all add: succeeds_com succeeds_act succeeds_ret press_key_simps Let_def)

lemma succeeds_set_company_code:
  "\<forall>n. \<not> com_fails e n \<Longrightarrow> val = [] \<or> (length val = 4 \<and> isnumeric val) \<Longrightarrow>
   succeeds (set_company_code e val)"
  unfolding set_company_code_def
  by (auto intro!: succeeds_bind simp: succeeds_com succeeds_act succeeds_ret)

lemma succeeds_set_layout: "\<forall>n. \<not> com_fails e n \<Longrightarrow> succeeds (set_layout e val)"
  by (simp add: set_layout_def succeeds_act)

lemma check_accounts_ok: "list_all isnumeric vals \<Longrightarrow> check_accounts vals = Inr ()"
  by (induction vals) auto

lemma succeeds_set_accounts:
  "\<forall>n. \<not> com_fails e n \<Longrightarrow> vals \<noteq> [] \<Longrightarrow> list_all isnumeric vals \<Longrightarrow>
   succeeds (set_accounts e vals)"
  unfolding set_accounts_def
  by (simp add: check_accounts_ok bind_lift_Inr succeeds_bind succeeds_act succeeds_copy
      clear_clipboard_def press_key_simps)

lemma succeeds_set_line_items_selection:
  "\<forall>n. \<not> com_fails e n \<Longrightarrow> status = ''open'' \<or> status = ''cleared'' \<or> status = ''all'' \<Longrightarrow>
   succeeds (set_line_items_selection e status)"
  unfolding set_line_items_selection_def
  by (auto simp: succeeds_act)

lemma succeeds_load_items:
  "\<forall>n. \<not> com_fails e n \<Longrightarrow> \<not> str_in ''No items selected'' (status_text e) \<Longrightarrow>
   str_in ''items displayed'' (status_text e) \<Longrightarrow> succeeds (load_items e)"
  by (simp add: load_items_def succeeds_def bind_def reraise_def press_key_simps act_def
      com_def ret_def)

lemma succeeds_find_filter:
  "\<forall>n. \<not> com_fails e n \<Longrightarrow> \<forall>i\<in>set idxs. i < length (filter_fields e) \<Longrightarrow>
   succeeds (find_filter e fld idxs)"
proof (induction idxs)
  case Nil
  then show ?case by (simp add: succeeds_ret)
next
  case (Cons i idxs)
  then show ?case
    by (auto intro!: succeeds_bind
        simp: filter_cell_def succeeds_com succeeds_act add_filter_criterion_def)
qed

lemma succeeds_set_filter: "\<forall>n. \<not> com_fails e n \<Longrightarrow> succeeds (set_filter e vals fld)"
  unfolding set_filter_def
  by (intro succeeds_bind succeeds_bind_com)
    (simp_all add: press_key_simps succeeds_act get_filter_list_def succeeds_find_filter
      succeeds_copy clear_clipboard_def)

lemma misses_tail:
  assumes "\<forall>n. \<not> com_fails e n" and "grid e = []"
  shows "misses (bind (row_count e) (\<lambda>n0.
     if n0 = 0
     then bind (press_key e ''F3'') (\<lambda>_.
            raise (NoItemsFoundError
              ''Filtering on the searched text values returned no results!''))
     else rest n0))"
  using assms
  by (simp add: misses_def row_count_def bind_def com_def press_key_simps act_def raise_def
      filter_miss_def)

text \<open>
  C8.  In a session where no call fails, with a bound module, a valid company code,
  valid accounts and status, and a status line that reports displayed items: when the
  item table has no row once the filter is set, the engine sends \<open>F3\<close> and raises
  \<open>NoItemsFoundError\<close>, which is not the \<open>NoItemsFoundWarning\<close> of a load that
  finds no items.
\<close>

theorem filter_miss_raises:
  assumes "\<forall>n. \<not> com_fails e n"
    and "sess_bound s"
    and "company_code = [] \<or> (length company_code = 4 \<and> isnumeric company_code)"
    and "accounts \<noteq> []"
    and "list_all isnumeric accounts"
    and "status = ''open'' \<or> status = ''cleared'' \<or> status = ''all''"
    and "\<not> str_in ''No items selected'' (status_text e)"
    and "str_in ''items displayed'' (status_text e)"
    and "grid e = []"
  shows "\<exists>s'. change_document_parameters e accounts company_code parameters status layout s
                = (Inl (NoItemsFoundError
                     ''Filtering on the searched text values returned no results!''), s')
              \<and> trace s' \<noteq> [] \<and> last (trace s') = SendVKey 3
              \<and> fst (change_document_parameters e accounts company_code parameters status
                     layout s)
                  \<noteq> Inl (NoItemsFoundWarning ''No items found using your selection criteria!'')"
proof -
  have "misses (bind (toggle_worklist e False) (\<lambda>_.
     bind (set_company_code e company_code) (\<lambda>_.
     bind (set_layout e layout) (\<lambda>_.
     bind (set_accounts e accounts) (\<lambda>_.
     bind (set_line_items_selection e status) (\<lambda>_.
     bind (load_items e) (\<lambda>item_table.
     bind (set_filter e (map fst parameters) ''SGTXT'') (\<lambda>_.
     bind (row_count e) (\<lambda>n0.
     if n0 = 0
     then bind (press_key e ''F3'') (\<lambda>_.
            raise (NoItemsFoundError
              ''Filtering on the searched text values returned no results!''))
     else
       bind (lift (default_messages (map fst parameters) parameters)) (\<lambda>output.
       bind (row_count e) (\<lambda>n.
       bind (for_rows e parameters [0..<n] output) (\<lambda>output'.
       bind (press_key e ''F3'') (\<lambda>_.
       ret output')))))))))))))"
    using assms
    by (intro misses_bind misses_tail succeeds_toggle_worklist succeeds_set_company_code
        succeeds_set_layout succeeds_set_accounts succeeds_set_line_items_selection
        succeeds_load_items succeeds_set_filter)
  then obtain s' where
    "bind (toggle_worklist e False) (\<lambda>_.
     bind (set_company_code e company_code) (\<lambda>_.
     bind (set_layout e layout) (\<lambda>_.
     bind (set_accounts e accounts) (\<lambda>_.
     bind (set_line_items_selection e status) (\<lambda>_.
     bind (load_items e) (\<lambda>item_table.
     bind (set_filter e (map fst parameters) ''SGTXT'') (\<lambda>_.
     bind (row_count e) (\<lambda>n0.
     if n0 = 0
     then bind (press_key e ''F3'') (\<lambda>_.
            raise (NoItemsFoundError
              ''Filtering on the searched text values returned no results!''))
     else
       bind (lift (default_messages (map fst parameters) parameters)) (\<lambda>output.
       bind (row_count e) (\<lambda>n.
       bind (for_rows e parameters [0..<n] output) (\<lambda>output'.
       bind (press_key e ''F3'') (\<lambda>_.
       ret output')))))))))))) s = (Inl filter_miss, s')"
    and "trace s' \<noteq> []" and "last (trace s') = SendVKey 3"
    unfolding misses_def by blast
  then have "change_document_parameters e accounts company_code parameters status layout s
               = (Inl filter_miss, s')"
    using assms(2)
    by (simp add: change_document_parameters_def check_prerequisities_def bind_def ret_def)
  then show ?thesis
    using \<open>trace s' \<noteq> []\<close> \<open>last (trace s') = SendVKey 3\<close>
    by (simp add: filter_miss_def)
qed

theorem filter_miss_raises_witness:
  "(\<forall>n. \<not> com_fails (scenario_env\<lparr>grid := []\<rparr>) n)
   \<and> sess_bound scenario_start
   \<and> length ''0075'' = 4 \<and> isnumeric ''0075''
   \<and> list_all isnumeric [''12345678'']
   \<and> \<not> str_in ''No items selected'' (status_text (scenario_env\<lparr>grid := []\<rparr>))
   \<and> str_in ''items displayed'' (status_text (scenario_env\<lparr>grid := []\<rparr>))
   \<and> fst (change_document_parameters (scenario_env\<lparr>grid := []\<rparr>) [''12345678''] ''0075''
            scenario_requests ''open'' [] scenario_start)
       = Inl (NoItemsFoundError ''Filtering on the searched text values returned no results!'')
   \<and> last (trace (snd (change_document_parameters (scenario_env\<lparr>grid := []\<rparr>)
                          [''12345678''] ''0075'' scenario_requests ''open'' [] scenario_start)))
       = SendVKey 3"
  using filter_miss_raises [of "scenario_env\<lparr>grid := []\<rparr>" scenario_start "''0075''"
      "[''12345678'']" "''open''" scenario_requests "[]"]
  by (auto simp: scenario_env_def scenario_start_def isnumeric_def isnumeric_char_def)

section \<open>The clipboard\<close>

lemma act_InrD: "act e ev s = (Inr x, s') \<Longrightarrow> s' = s\<lparr>trace := trace s @ [ev]\<rparr>"
  by (auto simp: act_def com_def Let_def split: if_splits)

lemma copy_InrD:
  "copy_to_clipboard e txt s = (Inr x, s') \<Longrightarrow>
   s' = s\<lparr>trace := trace s @ [CopyToClipboard txt], clipboard := txt\<rparr>"
  by (auto simp: copy_to_clipboard_def dest!: bind_InrD act_InrD)

lemma find_filter_ok:
  "\<forall>n. \<not> com_fails e n \<Longrightarrow> \<forall>i\<in>set idxs. i < length (filter_fields e) \<Longrightarrow>
   find_filter e fld idxs s
     = (Inr (), s\<lparr>trace := trace s @ filter_search_calls (filter_fields e) fld idxs\<rparr>)"
proof (induction idxs arbitrary: s)
  case Nil
  then show ?case by (simp add: ret_def)
next
  case (Cons i idxs)
  then show ?case
    by (simp add: filter_cell_def bind_def com_def act_def add_filter_criterion_def)
qed

lemma split_tail: "\<exists>before. xs @ [a, b, c, d, e, f, g] = before @ [c, d, e, f, g]"
  by (rule exI [of _ "xs @ [a, b]"]) simp

lemma accounts_return:
  "set_accounts e vals s = (Inr (), s') \<Longrightarrow>
   s' = s\<lparr>trace := trace s @ accounts_calls vals, clipboard := []\<rparr>"
  unfolding set_accounts_def clear_clipboard_def press_key_simps
  by (auto simp: raise_def lift_def accounts_calls_def split: if_splits
      dest!: bind_InrD act_InrD copy_InrD)

lemma filter_return:
  "set_filter e vals fld_tech_name s = (Inr (), s') \<Longrightarrow>
   clipboard s' = [] \<and> (\<exists>before. trace s' = before @ paste_calls vals)"
  unfolding set_filter_def clear_clipboard_def press_key_simps
  by (auto simp: paste_calls_def split_tail dest!: bind_InrD act_InrD copy_InrD)


lemma accounts_run:
  "(\<forall>n. \<not> com_fails e n) \<Longrightarrow> vals \<noteq> [] \<Longrightarrow> list_all isnumeric vals \<Longrightarrow>
   set_accounts e vals s
     = (Inr (), s\<lparr>trace := trace s @ accounts_calls vals, clipboard := []\<rparr>)"
  by (simp add: set_accounts_def check_accounts_ok bind_lift_Inr bind_def act_def com_def
      copy_to_clipboard_def clear_clipboard_def press_key_simps accounts_calls_def)

lemma filter_run:
  assumes nf: "\<forall>n. \<not> com_fails e n"
  shows "set_filter e vals fld_tech_name s
        = (Inr (), s\<lparr>trace := trace s @ [SendVKey 38, SendVKey 42, GetFilterList, FilterRowCount]
                      @ filter_search_calls (filter_fields e) fld_tech_name
                          [0..<length (filter_fields e)]
                      @ [PressButton ''wnd[1]'' ''600_BUTTON'' ''GuiButton'',
                         PressButton ''wnd[2]'' ''%_%%DYN001_%_APP_%-VALU_PUSH'' ''GuiButton'']
                      @ paste_calls vals,
                   clipboard := []\<rparr>)"
proof -
  have search: "find_filter e fld_tech_name [0..<length (filter_fields e)] s0
       = (Inr (), s0\<lparr>trace := trace s0 @ filter_search_calls (filter_fields e) fld_tech_name
                                 [0..<length (filter_fields e)]\<rparr>)" for s0
    using nf by (simp add: find_filter_ok)
  show ?thesis
    using nf
    by (simp add: set_filter_def get_filter_list_def bind_def act_def com_def search
        copy_to_clipboard_def clear_clipboard_def press_key_simps paste_calls_def)
qed


text \<open>
  C9.  \<open>_set_accounts\<close> and \<open>_set_filter\<close> put the values on the clipboard, paste
  them and then empty the clipboard.  Whenever one of them returns, the clipboard is
  empty and the calls made are, in this order, the values copied, Shift+F12, the empty
  string copied, and the confirming keys.  And they do return so from every state,
  whatever the clipboard held before, when no call fails (and, for the accounts, the
  list is not empty and every account is numeric).
\<close>

theorem clipboard_cleared:
  "(set_accounts e vals s = (Inr (), s') \<longrightarrow>
      s' = s\<lparr>trace := trace s @ accounts_calls vals, clipboard := []\<rparr>)
   \<and> (set_filter e vals fld_tech_name s = (Inr (), s') \<longrightarrow>
      clipboard s' = [] \<and> (\<exists>before. trace s' = before @ paste_calls vals))
   \<and> ((\<forall>n. \<not> com_fails e n) \<and> vals \<noteq> [] \<and> list_all isnumeric vals \<longrightarrow>
      set_accounts e vals s
        = (Inr (), s\<lparr>trace := trace s @ accounts_calls vals, clipboard := []\<rparr>))
   \<and> ((\<forall>n. \<not> com_fails e n) \<longrightarrow>
      set_filter e vals fld_tech_name s
        = (Inr (), s\<lparr>trace := trace s @ [SendVKey 38, SendVKey 42, GetFilterList, FilterRowCount]
                      @ filter_search_calls (filter_fields e) fld_tech_name
                          [0..<length (filter_fields e)]
                      @ [PressButton ''wnd[1]'' ''600_BUTTON'' ''GuiButton'',
                         PressButton ''wnd[2]'' ''%_%%DYN001_%_APP_%-VALU_PUSH'' ''GuiButton'']
                      @ paste_calls vals,
                   clipboard := []\<rparr>))"
proof (intro conjI impI)
  assume "set_accounts e vals s = (Inr (), s')"
  then show "s' = s\<lparr>trace := trace s @ accounts_calls vals, clipboard := []\<rparr>"
    by (rule accounts_return)
next
  assume "set_filter e vals fld_tech_name s = (Inr (), s')"
  from filter_return [OF this] show "clipboard s' = []"
    by (rule conjunct1)
next
  assume "set_filter e vals fld_tech_name s = (Inr (), s')"
  from filter_return [OF this] show "\<exists>before. trace s' = before @ paste_calls vals"
    by (rule conjunct2)
next
  assume h: "(\<forall>n. \<not> com_fails e n) \<and> vals \<noteq> [] \<and> list_all isnumeric vals"
  from h have nf: "\<forall>n. \<not> com_fails e n" and ne: "vals \<noteq> []"
    and num: "list_all isnumeric vals"
    by (rule conjunct1, rule conjunct2 [THEN conjunct1], rule conjunct2 [THEN conjunct2])
  show "set_accounts e vals s
        = (Inr (), s\<lparr>trace := trace s @ accounts_calls vals, clipboard := []\<rparr>)"
    by (rule accounts_run [OF nf ne num])
next
  assume "\<forall>n. \<not> com_fails e n"
  then show "set_filter e vals fld_tech_name s
        = (Inr (), s\<lparr>trace := trace s @ [SendVKey 38, SendVKey 42, GetFilterList, FilterRowCount]
                      @ filter_search_calls (filter_fields e) fld_tech_name
                          [0..<length (filter_fields e)]
                      @ [PressButton ''wnd[1]'' ''600_BUTTON'' ''GuiButton'',
                         PressButton ''wnd[2]'' ''%_%%DYN001_%_APP_%-VALU_PUSH'' ''GuiButton'']
                      @ paste_calls vals,
                   clipboard := []\<rparr>)"
    by (rule filter_run)
qed

theorem clipboard_cleared_witness:
  "(\<forall>n. \<not> com_fails scenario_env n)
   \<and> list_all isnumeric [''12345678'']
   \<and> set_accounts scenario_env [''12345678''] (scenario_start\<lparr>clipboard := ''left over''\<rparr>)
       = (Inr (), \<lparr>sess_bound = True,
            trace = [PressButton ''wnd[0]'' ''%_SD_SAKNR_%_APP_%-VALU_PUSH'' ''GuiButton'',
                     SendVKey 16, CopyToClipboard ''12345678'', SendVKey 24,
                     CopyToClipboard [], SendVKey 8],
            clipboard = []\<rparr>)
   \<and> set_filter scenario_env [''OLDA'', ''OLDB''] ''SGTXT''
         (scenario_start\<lparr>clipboard := ''left over''\<rparr>)
       = (Inr (), \<lparr>sess_bound = True,
            trace = [SendVKey 38, SendVKey 42, GetFilterList, FilterRowCount,
                     FilterGetCellValue 0 ''FIELDNAME'', FilterGetCellValue 1 ''FIELDNAME'',
                     FilterSelectedRows 1, PressButton ''wnd[1]'' ''APP_WL_SING'' ''GuiButton'',
                     PressButton ''wnd[1]'' ''600_BUTTON'' ''GuiButton'',
                     PressButton ''wnd[2]'' ''%_%%DYN001_%_APP_%-VALU_PUSH'' ''GuiButton'',
                     CopyToClipboard (''OLDA'' @ crlf @ ''OLDB''), SendVKey 24,
                     CopyToClipboard [], SendVKey 8, SendVKey 0],
            clipboard = []\<rparr>)"
proof -
  have nf: "\<forall>n. \<not> com_fails scenario_env n"
    by (simp add: scenario_env_def)
  have num: "list_all isnumeric [''12345678'']"
    by (simp add: isnumeric_def isnumeric_char_def)
  have hyp: "(\<forall>n. \<not> com_fails scenario_env n) \<and> [''12345678''] \<noteq> []
               \<and> list_all isnumeric [''12345678'']"
    using nf num by simp
  have "set_accounts scenario_env [''12345678''] (scenario_start\<lparr>clipboard := ''left over''\<rparr>)
          = (Inr (), scenario_start\<lparr>clipboard := ''left over''\<rparr>
               \<lparr>trace := trace (scenario_start\<lparr>clipboard := ''left over''\<rparr>)
                           @ accounts_calls [''12345678''],
                clipboard := []\<rparr>)"
    by (rule clipboard_cleared [where e = scenario_env and vals = "[''12345678'']"
          and s = "scenario_start\<lparr>clipboard := ''left over''\<rparr>",
          THEN conjunct2, THEN conjunct2, THEN conjunct1, THEN mp, OF hyp])
  then have accounts: "set_accounts scenario_env [''12345678'']
                         (scenario_start\<lparr>clipboard := ''left over''\<rparr>)
       = (Inr (), \<lparr>sess_bound = True,
            trace = [PressButton ''wnd[0]'' ''%_SD_SAKNR_%_APP_%-VALU_PUSH'' ''GuiButton'',
                     SendVKey 16, CopyToClipboard ''12345678'', SendVKey 24,
                     CopyToClipboard [], SendVKey 8],
            clipboard = []\<rparr>)"
    by (simp add: scenario_start_def accounts_calls_def)
  have "set_filter scenario_env [''OLDA'', ''OLDB''] ''SGTXT''
          (scenario_start\<lparr>clipboard := ''left over''\<rparr>)
        = (Inr (), scenario_start\<lparr>clipboard := ''left over''\<rparr>
             \<lparr>trace := trace (scenario_start\<lparr>clipboard := ''left over''\<rparr>)
                      @ [SendVKey 38, SendVKey 42, GetFilterList, FilterRowCount]
                      @ filter_search_calls (filter_fields scenario_env) ''SGTXT''
                          [0..<length (filter_fields scenario_env)]
                      @ [PressButton ''wnd[1]'' ''600_BUTTON'' ''GuiButton'',
                         PressButton ''wnd[2]'' ''%_%%DYN001_%_APP_%-VALU_PUSH'' ''GuiButton'']
                      @ paste_calls [''OLDA'', ''OLDB''],
              clipboard := []\<rparr>)"
    by (rule clipboard_cleared [where e = scenario_env and vals = "[''OLDA'', ''OLDB'']"
          and s = "scenario_start\<lparr>clipboard := ''left over''\<rparr>"
          and fld_tech_name = "''SGTXT''",
          THEN conjunct2, THEN conjunct2, THEN conjunct2, THEN mp, OF nf])
  moreover have "filter_search_calls (filter_fields scenario_env) ''SGTXT''
                   [0..<length (filter_fields scenario_env)]
                 = [FilterGetCellValue 0 ''FIELDNAME'', FilterGetCellValue 1 ''FIELDNAME'',
                    FilterSelectedRows 1, PressButton ''wnd[1]'' ''APP_WL_SING'' ''GuiButton'']"
    by (simp add: scenario_env_def upt_rec)
  ultimately have filter: "set_filter scenario_env [''OLDA'', ''OLDB''] ''SGTXT''
         (scenario_start\<lparr>clipboard := ''left over''\<rparr>)
       = (Inr (), \<lparr>sess_bound = True,
            trace = [SendVKey 38, SendVKey 42, GetFilterList, FilterRowCount,
                     FilterGetCellValue 0 ''FIELDNAME'', FilterGetCellValue 1 ''FIELDNAME'',
                     FilterSelectedRows 1, PressButton ''wnd[1]'' ''APP_WL_SING'' ''GuiButton'',
                     PressButton ''wnd[1]'' ''600_BUTTON'' ''GuiButton'',
                     PressButton ''wnd[2]'' ''%_%%DYN001_%_APP_%-VALU_PUSH'' ''GuiButton'',
                     CopyToClipboard (''OLDA'' @ crlf @ ''OLDB''), SendVKey 24,
                     CopyToClipboard [], SendVKey 8, SendVKey 0],
            clipboard = []\<rparr>)"
    by (simp add: scenario_start_def paste_calls_def)
  from nf num accounts filter show ?thesis
    by (intro conjI)
qed

end
